theory Spec2Isabelle
  imports Complex_Main "HOL-Library.Sublist" "HOL-Library.Log_Nat"
begin

chapter \<open>Definitions\<close>

section \<open>Values of the host language\<close>

text \<open>
  JavaScript numbers that the code only counts with are natural numbers here, and the
  durations it copies are rationals. The numbers it divides are values of the type
  \<open>number\<close> below. Strings are character lists. An optional field
  (\<^verbatim>\<open>error?: string\<close>, the result of \<^verbatim>\<open>?.\<close>) is an \<open>option\<close>, \<open>None\<close> standing for
  \<^verbatim>\<open>undefined\<close>.
\<close>

text \<open>\<^verbatim>\<open>s || d\<close> on an optional string: \<^verbatim>\<open>undefined\<close> and the empty string are falsy.\<close>

definition str_or :: "string option \<Rightarrow> string \<Rightarrow> string" where
  "str_or s d = (case s of None \<Rightarrow> d | Some v \<Rightarrow> (if v = [] then d else v))"

text \<open>\<^verbatim>\<open>Array.prototype.join\<close> on an array of strings.\<close>

fun join :: "string \<Rightarrow> string list \<Rightarrow> string" where
  "join sep [] = []"
| "join sep [x] = x"
| "join sep (x # y # ys) = x @ sep @ join sep (y # ys)"

text \<open>
  A number the code divides: a finite value, or one of the three values a division by
  zero produces. Division and multiplication are given for a finite right operand, which
  is all the code uses (a counter, or the literals 7 and 100). The sign of a zero is not
  modelled: every dividend here is a count. \<open>js_div\<close> and \<open>js_mul\<close> are the exact
  quotient and product, in which the accessibility score is stated; \<open>div64\<close> and \<open>mul64\<close>
  below round as the host's doubles do, and give the success rate, whose rounded and
  printed forms depend on that rounding.
\<close>

datatype number = Num rat | NaN | PosInfinity | NegInfinity



text \<open>
  The host's doubles (IEEE 754 binary64). \<open>fl x\<close> is the double nearest to \<open>x\<close>, a tie
  going to the even significand: with \<open>2 ^ e \<le> \<bar>x\<bar> < 2 ^ (e + 1)\<close>, the doubles around
  \<open>x\<close> are the multiples of \<open>2 ^ (e - 52)\<close>. The exponent is not bounded here; that is
  the host's rounding for every magnitude from \<open>2 ^ -1022\<close> up to \<open>2 ^ 1024\<close>, which
  holds every quotient and product of counts below \<open>2 ^ 53\<close> with the literal 100.
\<close>

definition pow2 :: "int \<Rightarrow> rat" where
  "pow2 d = (if 0 \<le> d then 2 ^ nat d else 1 / 2 ^ nat (- d))"

definition round_half_even :: "rat \<Rightarrow> int" where
  "round_half_even y =
     (let f = \<lfloor>y\<rfloor>; r = y - of_int f
      in if r < 1 / 2 then f else if 1 / 2 < r then f + 1 else if even f then f else f + 1)"

text \<open>The exponent \<open>e\<close> of a positive rational, from the bit lengths of its numerator and denominator.\<close>

definition ilog2 :: "rat \<Rightarrow> int" where
  "ilog2 x =
     (case quotient_of x of (a, b) \<Rightarrow>
        (let d = bitlen a - bitlen b
         in if pow2 d \<le> x then d else d - 1))"

definition fl :: "rat \<Rightarrow> rat" where
  "fl x =
     (if x = 0 then 0
      else (let q = pow2 (ilog2 \<bar>x\<bar> - 52)
            in sgn x * of_int (round_half_even (\<bar>x\<bar> / q)) * q))"

fun div64 :: "number \<Rightarrow> rat \<Rightarrow> number" where
  "div64 (Num a) b =
     (if b = 0 then (if a = 0 then NaN else if a > 0 then PosInfinity else NegInfinity)
      else Num (fl (a / b)))"
| "div64 NaN b = NaN"
| "div64 PosInfinity b = (if b < 0 then NegInfinity else PosInfinity)"
| "div64 NegInfinity b = (if b < 0 then PosInfinity else NegInfinity)"

fun mul64 :: "number \<Rightarrow> rat \<Rightarrow> number" where
  "mul64 (Num a) b = Num (fl (a * b))"
| "mul64 NaN b = NaN"
| "mul64 PosInfinity b = (if b = 0 then NaN else if b > 0 then PosInfinity else NegInfinity)"
| "mul64 NegInfinity b = (if b = 0 then NaN else if b > 0 then NegInfinity else PosInfinity)"

text \<open>
  \<^verbatim>\<open>Math.round\<close>: the nearest integer, a tie going up. It is exact: the nearest integer
  of a double is a double.
\<close>

fun Math_round :: "number \<Rightarrow> number" where
  "Math_round (Num x) = Num (of_int \<lfloor>x + 1 / 2\<rfloor>)"
| "Math_round v = v"

text \<open>The decimal numeral of a natural number.\<close>

function decimal :: "nat \<Rightarrow> string" where
  "decimal n =
     (if n < 10 then [char_of (48 + n)]
      else decimal (n div 10) @ [char_of (48 + n mod 10)])"
  by pat_completeness auto
termination
  by (relation "measure (\<lambda>n. n)") auto

text \<open>
  \<^verbatim>\<open>Number.prototype.toFixed\<close> with \<open>f\<close> fraction digits (0 to 100), as the language
  standard defines it: the integer \<open>n\<close> with \<open>n / 10 ^ f\<close> nearest to the value, the
  larger one of two, written in decimal with a point before its last \<open>f\<close> digits. From
  \<open>10 ^ 21\<close> on the result is the host's conversion of the number to a string, \<open>shw\<close>.
\<close>

definition toFixed :: "(rat \<Rightarrow> string) \<Rightarrow> nat \<Rightarrow> number \<Rightarrow> string" where
  "toFixed shw f v =
     (case v of
        NaN \<Rightarrow> ''NaN''
      | PosInfinity \<Rightarrow> ''Infinity''
      | NegInfinity \<Rightarrow> ''-Infinity''
      | Num x \<Rightarrow>
          (let s = (if x < 0 then ''-'' else []); a = \<bar>x\<bar>
           in if 10 ^ 21 \<le> a then s @ shw a
              else (let n = nat \<lfloor>a * 10 ^ f + 1 / 2\<rfloor>;
                        m = decimal n;
                        z = replicate (f + 1 - length m) CHR ''0'' @ m
                    in if f = 0 then s @ m
                       else s @ take (length z - f) z @ ''.'' @ drop (length z - f) z)))"

text \<open>A number inside a template literal; \<open>shw\<close> converts a finite one.\<close>

definition number_text :: "(rat \<Rightarrow> string) \<Rightarrow> number \<Rightarrow> string" where
  "number_text shw v =
     (case v of Num x \<Rightarrow> shw x | NaN \<Rightarrow> ''NaN'' | PosInfinity \<Rightarrow> ''Infinity''
      | NegInfinity \<Rightarrow> ''-Infinity'')"

definition newline :: string where
  "newline = [CHR 0x0A]"

definition dquote :: string where
  "dquote = [CHR 0x22]"

text \<open>A thrown value, by its message.\<close>

datatype exn = Exn string

text \<open>
  A value of the host language as the code meets it: the values JSON text parses to,
  \<^verbatim>\<open>undefined\<close>, and a function object (by name), which is all a prototype adds.
\<close>

datatype jsval =
    JUndefined
  | JNull
  | JBool bool
  | JNumber rat
  | JString string
  | JArray "jsval list"
  | JObject "(string \<times> jsval) list"
  | JFunction string

fun truthy :: "jsval \<Rightarrow> bool" where
  "truthy JUndefined = False"
| "truthy JNull = False"
| "truthy (JBool b) = b"
| "truthy (JNumber n) = (n \<noteq> 0)"
| "truthy (JString s) = (s \<noteq> [])"
| "truthy (JArray xs) = True"
| "truthy (JObject kvs) = True"
| "truthy (JFunction f) = True"

fun typeof :: "jsval \<Rightarrow> string" where
  "typeof JUndefined = ''undefined''"
| "typeof JNull = ''object''"
| "typeof (JBool b) = ''boolean''"
| "typeof (JNumber n) = ''number''"
| "typeof (JString s) = ''string''"
| "typeof (JArray xs) = ''object''"
| "typeof (JObject kvs) = ''object''"
| "typeof (JFunction f) = ''function''"

text \<open>
  The index a property key denotes on an array: the key must be the decimal numeral of
  the index, with no leading zero.
\<close>

definition digit_val :: "char \<Rightarrow> nat" where
  "digit_val c = of_char c - 48"

definition is_digit :: "char \<Rightarrow> bool" where
  "is_digit c = (48 \<le> (of_char c :: nat) \<and> (of_char c :: nat) \<le> 57)"

definition array_index :: "string \<Rightarrow> nat option" where
  "array_index k =
     (if k \<noteq> [] \<and> list_all is_digit k \<and> (k = ''0'' \<or> hd k \<noteq> CHR ''0'')
      then Some (foldl (\<lambda>n c. 10 * n + digit_val c) 0 k) else None)"

text \<open>The own properties of a value: the entries of an object, the elements and the length of an array.\<close>

fun own_property :: "jsval \<Rightarrow> string \<Rightarrow> jsval option" where
  "own_property (JObject kvs) k = map_of kvs k"
| "own_property (JArray xs) k =
     (if k = ''length'' then Some (JNumber (of_nat (length xs)))
      else (case array_index k of
              Some i \<Rightarrow> (if i < length xs then Some (xs ! i) else None)
            | None \<Rightarrow> None))"
| "own_property v k = None"

text \<open>
  What the prototype chain of a value holds is the host's business and a parameter
  here: for a value and a key, nothing, or a property whose read yields a value or
  throws (an accessor).
\<close>

type_synonym prototypes = "jsval \<Rightarrow> string \<Rightarrow> (exn + jsval) option"

text \<open>\<^verbatim>\<open>key in value\<close> and \<^verbatim>\<open>value[key]\<close>, for an object or array \<open>value\<close>.\<close>

definition js_in :: "prototypes \<Rightarrow> string \<Rightarrow> jsval \<Rightarrow> bool" where
  "js_in inh key v = (own_property v key \<noteq> None \<or> inh v key \<noteq> None)"

definition js_get :: "prototypes \<Rightarrow> jsval \<Rightarrow> string \<Rightarrow> exn + jsval" where
  "js_get inh v key =
     (case own_property v key of
        Some x \<Rightarrow> Inr x
      | None \<Rightarrow> (case inh v key of Some r \<Rightarrow> r | None \<Rightarrow> Inr JUndefined))"

text \<open>
  The prototypes of a standard host (ECMAScript 2023): what every object inherits from
  \<^verbatim>\<open>Object.prototype\<close> and every array from \<^verbatim>\<open>Array.prototype\<close> and then from
  \<^verbatim>\<open>Object.prototype\<close>. A method is a function object; \<^verbatim>\<open>__proto__\<close> is an accessor
  that yields the prototype, given here by its members.
\<close>

definition object_prototype :: "(string \<times> jsval) list" where
  "object_prototype =
     (''constructor'', JFunction ''Object'') #
     map (\<lambda>name. (name, JFunction name))
       [''__defineGetter__'', ''__defineSetter__'', ''hasOwnProperty'', ''__lookupGetter__'',
        ''__lookupSetter__'', ''isPrototypeOf'', ''propertyIsEnumerable'', ''toString'',
        ''valueOf'', ''toLocaleString'']"

definition array_prototype :: "(string \<times> jsval) list" where
  "array_prototype =
     (''constructor'', JFunction ''Array'') #
     map (\<lambda>name. (name, JFunction name))
       [''at'', ''concat'', ''copyWithin'', ''fill'', ''find'', ''findIndex'', ''findLast'',
        ''findLastIndex'', ''lastIndexOf'', ''pop'', ''push'', ''reverse'', ''shift'',
        ''unshift'', ''slice'', ''sort'', ''splice'', ''includes'', ''indexOf'', ''join'',
        ''keys'', ''entries'', ''values'', ''forEach'', ''filter'', ''flat'', ''flatMap'',
        ''map'', ''every'', ''some'', ''reduce'', ''reduceRight'', ''toLocaleString'',
        ''toString'', ''toReversed'', ''toSorted'', ''toSpliced'', ''with'']"

definition inherited_from :: "(string \<times> jsval) list \<Rightarrow> string \<Rightarrow> (exn + jsval) option" where
  "inherited_from members key =
     (if key = ''__proto__'' then Some (Inr (JObject members))
      else (case map_of members key of Some f \<Rightarrow> Some (Inr f) | None \<Rightarrow> None))"

definition es_prototypes :: prototypes where
  "es_prototypes v key =
     (case v of
        JObject kvs \<Rightarrow> inherited_from object_prototype key
      | JArray xs \<Rightarrow>
          (case inherited_from array_prototype key of
             Some r \<Rightarrow> Some r
           | None \<Rightarrow> inherited_from object_prototype key)
      | _ \<Rightarrow> None)"

section \<open>The custom reporter\<close>

text \<open>
  What \<^verbatim>\<open>onTestEnd\<close> reads of its two arguments: \<^verbatim>\<open>test.title\<close>,
  \<^verbatim>\<open>test.parent.project()?.name\<close>, \<^verbatim>\<open>result.duration\<close>, \<^verbatim>\<open>result.status\<close> and
  \<^verbatim>\<open>result.error?.message\<close>.
\<close>

record TestCase =
  tc_title :: string
  tc_project_name :: "string option"

record TestResult =
  tr_duration :: rat
  tr_status :: string
  tr_error_message :: "string option"

text \<open>An element of the reporter's \<^verbatim>\<open>results\<close> array.\<close>

record result_entry =
  title :: string
  status :: string
  duration :: rat
  error :: "string option"
  projectName :: string

record CustomReporter =
  startTime :: int
  totalTests :: nat
  passedTests :: nat
  failedTests :: nat
  skippedTests :: nat
  results :: "result_entry list"

text \<open>The field initialisers of the class.\<close>

definition new_CustomReporter :: CustomReporter where
  "new_CustomReporter =
     \<lparr>startTime = 0, totalTests = 0, passedTests = 0, failedTests = 0,
      skippedTests = 0, results = []\<rparr>"

text \<open>
  \<^verbatim>\<open>onBegin\<close>: \<open>now\<close> is \<^verbatim>\<open>Date.now()\<close>, \<open>n\<close> is \<^verbatim>\<open>suite.allTests().length\<close>.
\<close>

definition onBegin :: "int \<Rightarrow> nat \<Rightarrow> CustomReporter \<Rightarrow> CustomReporter" where
  "onBegin now n r = r\<lparr>startTime := now, totalTests := n\<rparr>"

definition entry_of :: "TestCase \<Rightarrow> TestResult \<Rightarrow> result_entry" where
  "entry_of t res =
     \<lparr>title = tc_title t, status = tr_status res, duration = tr_duration res,
      error = tr_error_message res,
      projectName = str_or (tc_project_name t) ''unknown''\<rparr>"

text \<open>
  \<^verbatim>\<open>onTestEnd\<close>: push the entry, then the \<^verbatim>\<open>switch\<close> on the status string. The switch
  has four cases and no default, so any other status changes no counter.
\<close>

definition onTestEnd :: "TestCase \<Rightarrow> TestResult \<Rightarrow> CustomReporter \<Rightarrow> CustomReporter" where
  "onTestEnd t res r =
     (let r1 = r\<lparr>results := results r @ [entry_of t res]\<rparr>;
          st = tr_status res
      in if st = ''passed'' then r1\<lparr>passedTests := passedTests r1 + 1\<rparr>
         else if st = ''failed'' then r1\<lparr>failedTests := failedTests r1 + 1\<rparr>
         else if st = ''skipped'' then r1\<lparr>skippedTests := skippedTests r1 + 1\<rparr>
         else if st = ''timedOut'' then r1\<lparr>failedTests := failedTests r1 + 1\<rparr>
         else r1)"

text \<open>A run: the host calls \<^verbatim>\<open>onTestEnd\<close> once per delivered result, in order.\<close>

fun deliver :: "(TestCase \<times> TestResult) list \<Rightarrow> CustomReporter \<Rightarrow> CustomReporter" where
  "deliver [] r = r"
| "deliver ((t, res) # evs) r = deliver evs (onTestEnd t res r)"

definition run :: "int \<Rightarrow> nat \<Rightarrow> (TestCase \<times> TestResult) list \<Rightarrow> CustomReporter" where
  "run now n evs = deliver evs (onBegin now n new_CustomReporter)"

text \<open>The number of recorded results with a given status.\<close>

definition count_status :: "string \<Rightarrow> CustomReporter \<Rightarrow> nat" where
  "count_status s r = length (filter (\<lambda>e. status e = s) (results r))"

text \<open>
  The expression \<^verbatim>\<open>this.totalTests > 0 ? (this.passedTests / this.totalTests) * 100 : 0\<close>,
  which \<^verbatim>\<open>onEnd\<close>, \<^verbatim>\<open>generateJSONReport\<close>, \<^verbatim>\<open>generateHTMLReport\<close> and
  \<^verbatim>\<open>generateMetricsReport\<close> each write out in full.
\<close>

definition successRate :: "CustomReporter \<Rightarrow> number" where
  "successRate r =
     (if totalTests r > 0
      then mul64 (div64 (Num (of_nat (passedTests r))) (of_nat (totalTests r))) 100
      else Num 0)"

text \<open>
  The summary of each of the four outputs. The JSON report stores the rate as computed,
  and the metrics report stores \<^verbatim>\<open>Math.round(successRate * 100) / 100\<close>: these two are
  numbers. The console summary prints \<^verbatim>\<open>successRate.toFixed(2)\<close> and the HTML page
  \<^verbatim>\<open>successRate.toFixed(1)\<close>, each before a percent sign: these two are figures, kept
  as the strings printed. The HTML page also writes the rate itself as the width of its
  progress bar. \<open>shw\<close> is the host's conversion of a number to a string.
\<close>

record summary =
  s_total :: nat
  s_passed :: nat
  s_failed :: nat
  s_skipped :: nat
  s_successRate :: number

record printed_summary =
  p_total :: nat
  p_passed :: nat
  p_failed :: nat
  p_skipped :: nat
  p_successRate :: string

record html_summary = printed_summary +
  h_barWidth :: string

definition onEnd_summary :: "(rat \<Rightarrow> string) \<Rightarrow> CustomReporter \<Rightarrow> printed_summary" where
  "onEnd_summary shw r =
     (let successRate = (if totalTests r > 0
         then mul64 (div64 (Num (of_nat (passedTests r))) (of_nat (totalTests r))) 100
         else Num 0)
      in \<lparr>p_total = totalTests r, p_passed = passedTests r, p_failed = failedTests r,
          p_skipped = skippedTests r, p_successRate = toFixed shw 2 successRate\<rparr>)"

definition generateJSONReport_summary :: "CustomReporter \<Rightarrow> summary" where
  "generateJSONReport_summary r =
     \<lparr>s_total = totalTests r, s_passed = passedTests r, s_failed = failedTests r,
      s_skipped = skippedTests r,
      s_successRate = (if totalTests r > 0
         then mul64 (div64 (Num (of_nat (passedTests r))) (of_nat (totalTests r))) 100
         else Num 0)\<rparr>"

definition generateHTMLReport_summary :: "(rat \<Rightarrow> string) \<Rightarrow> CustomReporter \<Rightarrow> html_summary" where
  "generateHTMLReport_summary shw r =
     (let successRate = (if totalTests r > 0
         then mul64 (div64 (Num (of_nat (passedTests r))) (of_nat (totalTests r))) 100
         else Num 0)
      in \<lparr>p_total = totalTests r, p_passed = passedTests r, p_failed = failedTests r,
          p_skipped = skippedTests r, p_successRate = toFixed shw 1 successRate,
          h_barWidth = number_text shw successRate\<rparr>)"

definition generateMetricsReport_summary :: "CustomReporter \<Rightarrow> summary" where
  "generateMetricsReport_summary r =
     (let successRate = (if totalTests r > 0
         then mul64 (div64 (Num (of_nat (passedTests r))) (of_nat (totalTests r))) 100
         else Num 0)
      in \<lparr>s_total = totalTests r, s_passed = passedTests r, s_failed = failedTests r,
          s_skipped = skippedTests r,
          s_successRate = div64 (Math_round (mul64 successRate 100)) 100\<rparr>)"

text \<open>
  \<^verbatim>\<open>generateCSVReport\<close>. \<open>shw\<close> is the host's conversion of a number inside a template
  literal. The result is the path and the content given to \<^verbatim>\<open>fs.writeFileSync\<close>.
\<close>

definition csv_row :: "(rat \<Rightarrow> string) \<Rightarrow> result_entry \<Rightarrow> string" where
  "csv_row shw e =
     dquote @ title e @ dquote @ '','' @ dquote @ status e @ dquote @ '','' @
     dquote @ shw (duration e) @ dquote @ '','' @ dquote @ projectName e @ dquote @ '','' @
     dquote @ str_or (error e) [] @ dquote"

definition csvHeaders :: string where
  "csvHeaders = ''Test Name,Status,Duration (ms),Project,Error'' @ newline"

definition generateCSVReport :: "(rat \<Rightarrow> string) \<Rightarrow> CustomReporter \<Rightarrow> string \<times> string" where
  "generateCSVReport shw r =
     (let csvRows = join newline (map (csv_row shw) (results r));
          csvContent = csvHeaders @ csvRows
      in (''test-results/custom-reports/report.csv'', csvContent))"

text \<open>
  The files \<^verbatim>\<open>onEnd\<close> writes, in order, as pairs of path and content (paths as
  \<^verbatim>\<open>path.join\<close> builds them with the separator \<^verbatim>\<open>/\<close>). The texts of the JSON, HTML
  and metrics reports are templating of the host and are taken as given.
\<close>

record report_texts =
  json_text :: string
  html_text :: string
  metrics_text :: string

definition onEnd_writes ::
  "(rat \<Rightarrow> string) \<Rightarrow> report_texts \<Rightarrow> CustomReporter \<Rightarrow> (string \<times> string) list" where
  "onEnd_writes shw texts r =
     [(''test-results/custom-reports/report.json'', json_text texts),
      (''test-results/custom-reports/report.html'', html_text texts),
      generateCSVReport shw r,
      (''test-results/custom-reports/metrics.json'', metrics_text texts)]"

text \<open>Two delivered results, and a run of three tests of which one passed.\<close>

definition ev_passed :: "TestCase \<times> TestResult" where
  "ev_passed =
     (\<lparr>tc_title = ''loads the page'', tc_project_name = Some ''chromium''\<rparr>,
      \<lparr>tr_duration = 120, tr_status = ''passed'', tr_error_message = None\<rparr>)"

definition ev_timedOut :: "TestCase \<times> TestResult" where
  "ev_timedOut =
     (\<lparr>tc_title = ''slow search'', tc_project_name = None\<rparr>,
      \<lparr>tr_duration = 30000, tr_status = ''timedOut'',
       tr_error_message = Some ''Test timeout of 30000ms exceeded.''\<rparr>)"

definition r_one_of_three :: CustomReporter where
  "r_one_of_three = run 0 3 [ev_passed]"

text \<open>A run of 160 tests of which 23 passed, and a number conversion that is never reached.\<close>

definition r_23_of_160 :: CustomReporter where
  "r_23_of_160 = run 0 160 (replicate 23 ev_passed)"

definition no_shw :: "rat \<Rightarrow> string" where
  "no_shw x = []"

text \<open>
  The CSV artifact as the specification words it: a row is the five columns, each
  between double quotes, separated by commas; the Error column is empty when the result
  carries no error.
\<close>

definition quoted :: "string \<Rightarrow> string" where
  "quoted f = dquote @ f @ dquote"

definition spec_csv_row :: "(rat \<Rightarrow> string) \<Rightarrow> TestCase \<times> TestResult \<Rightarrow> string" where
  "spec_csv_row shw ev =
     join '','' (map quoted
       [tc_title (fst ev), tr_status (snd ev), shw (tr_duration (snd ev)),
        str_or (tc_project_name (fst ev)) ''unknown'',
        (case tr_error_message (snd ev) of None \<Rightarrow> [] | Some m \<Rightarrow> m)])"

section \<open>The accessibility report\<close>




section \<open>Test data\<close>

text \<open>The interfaces of \<^verbatim>\<open>types/test-data.ts\<close>; a field keeps its name after a prefix.\<close>

record Address =
  street :: string
  city :: string
  state :: string
  country :: string
  zipCode :: string

record UserPreferences =
  language :: string
  theme :: string
  notifications :: bool
  newsletter :: bool

record UserProfile =
  firstName :: string
  lastName :: string
  dateOfBirth :: string
  address :: Address
  preferences :: UserPreferences

record User =
  u_id :: string
  u_username :: string
  u_email :: string
  u_password :: string
  u_role :: string
  u_profile :: UserProfile

record SearchQuery =
  q_id :: string
  q_query :: string
  q_expectedResults :: int
  q_category :: string
  q_description :: string
  q_expectedBehavior :: string

record UrlData =
  l_id :: string
  l_name :: string
  l_url :: string
  l_environment :: string
  l_expectedStatus :: int
  l_timeout :: int

record Credentials =
  c_username :: string
  c_password :: string

record Environment =
  e_name :: string
  e_baseUrl :: string
  e_apiUrl :: string
  e_features :: "string list"
  e_credentials :: Credentials

record TestData =
  users :: "User list"
  searchQueries :: "SearchQuery list"
  urls :: "UrlData list"
  environments :: "Environment list"

text \<open>
  The same data as host values, as \<^verbatim>\<open>JSON.parse\<close> returns them and as the object literal
  of \<^verbatim>\<open>getDefaultTestData\<close> builds them: an interface is an object with its fields as
  own properties, a list an array.
\<close>

definition js_of_Address :: "Address \<Rightarrow> jsval" where
  "js_of_Address a =
     JObject [(''street'', JString (street a)), (''city'', JString (city a)),
       (''state'', JString (state a)), (''country'', JString (country a)),
       (''zipCode'', JString (zipCode a))]"

definition js_of_UserPreferences :: "UserPreferences \<Rightarrow> jsval" where
  "js_of_UserPreferences p =
     JObject [(''language'', JString (language p)), (''theme'', JString (theme p)),
       (''notifications'', JBool (notifications p)), (''newsletter'', JBool (newsletter p))]"

definition js_of_UserProfile :: "UserProfile \<Rightarrow> jsval" where
  "js_of_UserProfile p =
     JObject [(''firstName'', JString (firstName p)), (''lastName'', JString (lastName p)),
       (''dateOfBirth'', JString (dateOfBirth p)), (''address'', js_of_Address (address p)),
       (''preferences'', js_of_UserPreferences (preferences p))]"

definition js_of_User :: "User \<Rightarrow> jsval" where
  "js_of_User u =
     JObject [(''id'', JString (u_id u)), (''username'', JString (u_username u)),
       (''email'', JString (u_email u)), (''password'', JString (u_password u)),
       (''role'', JString (u_role u)), (''profile'', js_of_UserProfile (u_profile u))]"

definition js_of_SearchQuery :: "SearchQuery \<Rightarrow> jsval" where
  "js_of_SearchQuery q =
     JObject [(''id'', JString (q_id q)), (''query'', JString (q_query q)),
       (''expectedResults'', JNumber (of_int (q_expectedResults q))),
       (''category'', JString (q_category q)), (''description'', JString (q_description q)),
       (''expectedBehavior'', JString (q_expectedBehavior q))]"

definition js_of_UrlData :: "UrlData \<Rightarrow> jsval" where
  "js_of_UrlData l =
     JObject [(''id'', JString (l_id l)), (''name'', JString (l_name l)),
       (''url'', JString (l_url l)), (''environment'', JString (l_environment l)),
       (''expectedStatus'', JNumber (of_int (l_expectedStatus l))),
       (''timeout'', JNumber (of_int (l_timeout l)))]"

definition js_of_Credentials :: "Credentials \<Rightarrow> jsval" where
  "js_of_Credentials c =
     JObject [(''username'', JString (c_username c)), (''password'', JString (c_password c))]"

definition js_of_Environment :: "Environment \<Rightarrow> jsval" where
  "js_of_Environment e =
     JObject [(''name'', JString (e_name e)), (''baseUrl'', JString (e_baseUrl e)),
       (''apiUrl'', JString (e_apiUrl e)), (''features'', JArray (map JString (e_features e))),
       (''credentials'', js_of_Credentials (e_credentials e))]"

definition js_of_TestData :: "TestData \<Rightarrow> jsval" where
  "js_of_TestData d =
     JObject [(''users'', JArray (map js_of_User (users d))),
       (''searchQueries'', JArray (map js_of_SearchQuery (searchQueries d))),
       (''urls'', JArray (map js_of_UrlData (urls d))),
       (''environments'', JArray (map js_of_Environment (environments d)))]"

text \<open>
  What \<^verbatim>\<open>loadTestData\<close> uses of the host: the working directory, \<^verbatim>\<open>path.join\<close>,
  \<^verbatim>\<open>fs.existsSync\<close>, \<^verbatim>\<open>fs.readFileSync\<close> (which may throw) and \<^verbatim>\<open>JSON.parse\<close> (which
  may throw, and otherwise returns whatever value the text denotes: \<^verbatim>\<open>null\<close>, an empty
  object, an array, a number).
\<close>

record host =
  cwd :: string
  path_join :: "string list \<Rightarrow> string"
  existsSync :: "string \<Rightarrow> bool"
  readFileSync :: "string \<Rightarrow> exn + string"
  JSON_parse :: "string \<Rightarrow> exn + jsval"

text \<open>
  The manager as it runs. The field \<^verbatim>\<open>testData\<close> is declared \<^verbatim>\<open>TestData | null\<close>, but
  \<^verbatim>\<open>loadTestData\<close> assigns it the parser's result with no check, so it holds a host
  value of any shape.
\<close>

record TestDataManager_js =
  js_environment :: string
  js_testData :: jsval

definition new_TestDataManager :: "string \<Rightarrow> TestDataManager_js" where
  "new_TestDataManager env = \<lparr>js_environment = env, js_testData = JNull\<rparr>"

definition getDefaultTestData :: TestData where
  "getDefaultTestData =
     \<lparr>users =
        [\<lparr>u_id = ''user1'', u_username = ''testuser1'', u_email = ''testuser1@example.com'',
          u_password = ''password123'', u_role = ''user'',
          u_profile =
            \<lparr>firstName = ''Test'', lastName = ''User'', dateOfBirth = ''1990-01-01'',
             address = \<lparr>street = ''123 Test St'', city = ''Test City'', state = ''Test State'',
               country = ''Test Country'', zipCode = ''12345''\<rparr>,
             preferences = \<lparr>language = ''en'', theme = ''light'', notifications = True,
               newsletter = False\<rparr>\<rparr>\<rparr>],
      searchQueries =
        [\<lparr>q_id = ''valid-search-1'', q_query = ''playwright testing'', q_expectedResults = 10,
          q_category = ''valid'', q_description = ''Valid search for playwright testing'',
          q_expectedBehavior = ''pass''\<rparr>,
         \<lparr>q_id = ''valid-search-2'', q_query = ''typescript automation'', q_expectedResults = 10,
          q_category = ''valid'', q_description = ''Valid search for typescript automation'',
          q_expectedBehavior = ''pass''\<rparr>,
         \<lparr>q_id = ''special-chars-search'', q_query = ''test @#$%^&*()'', q_expectedResults = 5,
          q_category = ''edge-case'', q_description = ''Search with special characters'',
          q_expectedBehavior = ''pass''\<rparr>,
         \<lparr>q_id = ''long-query-search'', q_query = replicate 1000 CHR ''a'',
          q_expectedResults = 0, q_category = ''edge-case'',
          q_description = ''Extremely long search query'', q_expectedBehavior = ''fail''\<rparr>,
         \<lparr>q_id = ''pagination-test'', q_query = ''test pagination fail'', q_expectedResults = 10,
          q_category = ''performance'',
          q_description = ''Search result pagination test that should fail'',
          q_expectedBehavior = ''fail''\<rparr>],
      urls =
        [\<lparr>l_id = ''google-home'', l_name = ''Google Home Page'', l_url = ''https://www.google.com'',
          l_environment = ''prod'', l_expectedStatus = 200, l_timeout = 30000\<rparr>],
      environments =
        [\<lparr>e_name = ''staging'', e_baseUrl = ''https://www.google.com'',
          e_apiUrl = ''https://jsonplaceholder.typicode.com'',
          e_features = [''search'', ''images'', ''maps''],
          e_credentials = \<lparr>c_username = ''staging_user'', c_password = ''staging_pass''\<rparr>\<rparr>,
         \<lparr>e_name = ''prod'', e_baseUrl = ''https://www.google.com'',
          e_apiUrl = ''https://jsonplaceholder.typicode.com'',
          e_features = [''search'', ''images'', ''maps'', ''news''],
          e_credentials = \<lparr>c_username = ''prod_user'', c_password = ''prod_pass''\<rparr>\<rparr>]\<rparr>"

text \<open>The three paths \<^verbatim>\<open>loadTestData\<close> builds, and the file it settles on.\<close>

definition dataDir :: "host \<Rightarrow> string" where
  "dataDir h = path_join h [cwd h, ''src'', ''data'']"

definition envDataFile :: "host \<Rightarrow> TestDataManager_js \<Rightarrow> string" where
  "envDataFile h m = path_join h [dataDir h, js_environment m @ ''.json'']"

definition defaultDataFile :: "host \<Rightarrow> string" where
  "defaultDataFile h = path_join h [dataDir h, ''default.json'']"

definition dataFile :: "host \<Rightarrow> TestDataManager_js \<Rightarrow> string" where
  "dataFile h m = (if existsSync h (envDataFile h m) then envDataFile h m else defaultDataFile h)"

text \<open>The body of the \<^verbatim>\<open>try\<close> block: \<open>Inl\<close> is an exception leaving it.\<close>

definition loadTestData_try :: "host \<Rightarrow> TestDataManager_js \<Rightarrow> exn + TestDataManager_js" where
  "loadTestData_try h m =
     (if existsSync h (dataFile h m)
      then (case readFileSync h (dataFile h m) of
              Inl e \<Rightarrow> Inl e
            | Inr fileContent \<Rightarrow>
                (case JSON_parse h fileContent of
                   Inl e \<Rightarrow> Inl e
                 | Inr parsed \<Rightarrow> Inr (m\<lparr>js_testData := parsed\<rparr>)))
      else Inr (m\<lparr>js_testData := js_of_TestData getDefaultTestData\<rparr>))"

text \<open>\<^verbatim>\<open>loadTestData\<close>: the \<^verbatim>\<open>catch\<close> block stores the default data and returns.\<close>

definition loadTestData :: "host \<Rightarrow> TestDataManager_js \<Rightarrow> exn + TestDataManager_js" where
  "loadTestData h m =
     (case loadTestData_try h m of
        Inl e \<Rightarrow> Inr (m\<lparr>js_testData := js_of_TestData getDefaultTestData\<rparr>)
      | Inr m' \<Rightarrow> Inr m')"

definition initialize :: "host \<Rightarrow> TestDataManager_js \<Rightarrow> exn + TestDataManager_js" where
  "initialize h m = loadTestData h m"

text \<open>
  The getters, on the value the manager holds. \<^verbatim>\<open>this.testData?.users\<close> is
  \<^verbatim>\<open>undefined\<close> when the data is \<^verbatim>\<open>null\<close> or \<^verbatim>\<open>undefined\<close>, and otherwise reads the
  property \<^verbatim>\<open>users\<close> of whatever the data is, which is \<^verbatim>\<open>undefined\<close> when the value has
  no such property; \<^verbatim>\<open>|| []\<close> replaces a falsy result by an empty array. The prototypes
  are those of a standard host. \<open>Inl\<close> is a thrown exception.
\<close>

definition nullish :: "jsval \<Rightarrow> bool" where
  "nullish v = (v = JNull \<or> v = JUndefined)"

definition getUsers :: "TestDataManager_js \<Rightarrow> exn + jsval" where
  "getUsers m =
     (if nullish (js_testData m) then Inr (JArray [])
      else (case js_get es_prototypes (js_testData m) ''users'' of
              Inl e \<Rightarrow> Inl e
            | Inr v \<Rightarrow> Inr (if truthy v then v else JArray [])))"

definition getSearchQueries_js :: "TestDataManager_js \<Rightarrow> exn + jsval" where
  "getSearchQueries_js m =
     (if nullish (js_testData m) then Inr (JArray [])
      else (case js_get es_prototypes (js_testData m) ''searchQueries'' of
              Inl e \<Rightarrow> Inl e
            | Inr v \<Rightarrow> Inr (if truthy v then v else JArray [])))"

definition getUrls :: "TestDataManager_js \<Rightarrow> exn + jsval" where
  "getUrls m =
     (if nullish (js_testData m) then Inr (JArray [])
      else (case js_get es_prototypes (js_testData m) ''urls'' of
              Inl e \<Rightarrow> Inl e
            | Inr v \<Rightarrow> Inr (if truthy v then v else JArray [])))"

text \<open>
  \<^verbatim>\<open>environments.find(env => env.name === name)\<close> on an array: the first element whose
  property \<^verbatim>\<open>name\<close> is the string \<open>name\<close>, or \<^verbatim>\<open>undefined\<close>. Reading \<^verbatim>\<open>env.name\<close> throws a
  \<^verbatim>\<open>TypeError\<close> when the element is \<^verbatim>\<open>null\<close> or \<^verbatim>\<open>undefined\<close>.
\<close>

fun find_by_name :: "string \<Rightarrow> jsval list \<Rightarrow> exn + jsval" where
  "find_by_name name [] = Inr JUndefined"
| "find_by_name name (env # rest) =
     (if nullish env then Inl (Exn ''TypeError'')
      else (case js_get es_prototypes env ''name'' of
              Inl e \<Rightarrow> Inl e
            | Inr v \<Rightarrow> (if v = JString name then Inr env else find_by_name name rest)))"

text \<open>
  \<^verbatim>\<open>this.testData?.environments.find(\<dots>)\<close>. Only an array has the method \<^verbatim>\<open>find\<close>: on
  \<^verbatim>\<open>undefined\<close> and \<^verbatim>\<open>null\<close> the read of \<^verbatim>\<open>find\<close> throws a \<^verbatim>\<open>TypeError\<close>, and on any other
  value that JSON text denotes it yields no function, so that the call throws one.
\<close>

definition getEnvironment :: "string \<Rightarrow> TestDataManager_js \<Rightarrow> exn + jsval" where
  "getEnvironment name m =
     (if nullish (js_testData m) then Inr JUndefined
      else (case js_get es_prototypes (js_testData m) ''environments'' of
              Inl e \<Rightarrow> Inl e
            | Inr (JArray envs) \<Rightarrow> find_by_name name envs
            | Inr v \<Rightarrow> Inl (Exn ''TypeError'')))"

text \<open>
  The manager as its declared types read it, which is right for data that is \<^verbatim>\<open>null\<close>
  or of the declared shape: \<^verbatim>\<open>getSearchQueries\<close> and \<^verbatim>\<open>getSearchQueriesByBehavior\<close>. An
  array is truthy, so the default \<^verbatim>\<open>[]\<close> is taken only when the data is \<^verbatim>\<open>null\<close>.
\<close>

record TestDataManager =
  environment :: string
  testData :: "TestData option"

definition getSearchQueries :: "TestDataManager \<Rightarrow> SearchQuery list" where
  "getSearchQueries m = (case testData m of None \<Rightarrow> [] | Some d \<Rightarrow> searchQueries d)"


text \<open>The host values such a manager holds.\<close>

definition js_of_TestDataManager :: "TestDataManager \<Rightarrow> TestDataManager_js" where
  "js_of_TestDataManager m =
     \<lparr>js_environment = environment m,
      js_testData = (case testData m of None \<Rightarrow> JNull | Some d \<Rightarrow> js_of_TestData d)\<rparr>"

text \<open>
  What a list getter draws from the data: the data's own member of that name, or an
  empty array when the data has none or holds a falsy value there.
\<close>

definition member_or_empty :: "jsval \<Rightarrow> string \<Rightarrow> jsval" where
  "member_or_empty d key =
     (case own_property d key of
        Some v \<Rightarrow> (if truthy v then v else JArray [])
      | None \<Rightarrow> JArray [])"

text \<open>
  The loading rule as the specification words it: the environment's file if it exists,
  else the default file if it exists, else the built-in data; a file that cannot be read
  or parsed yields the built-in data.
\<close>

definition data_of_file :: "host \<Rightarrow> string \<Rightarrow> jsval" where
  "data_of_file h p =
     (case readFileSync h p of
        Inl e \<Rightarrow> js_of_TestData getDefaultTestData
      | Inr fileContent \<Rightarrow>
          (case JSON_parse h fileContent of
             Inl e \<Rightarrow> js_of_TestData getDefaultTestData
           | Inr parsed \<Rightarrow> parsed))"

definition spec_loaded_data :: "host \<Rightarrow> TestDataManager_js \<Rightarrow> jsval" where
  "spec_loaded_data h m =
     (if existsSync h (envDataFile h m) then data_of_file h (envDataFile h m)
      else if existsSync h (defaultDataFile h) then data_of_file h (defaultDataFile h)
      else js_of_TestData getDefaultTestData)"

text \<open>
  Three hosts: one with no data file, one whose default file holds the text \<^verbatim>\<open>null\<close>,
  one whose default file holds the text \<^verbatim>\<open>{}\<close>. Their parser knows these two texts.
\<close>

definition parse_sample :: "string \<Rightarrow> exn + jsval" where
  "parse_sample s =
     (if s = ''null'' then Inr JNull
      else if s = ''{}'' then Inr (JObject [])
      else Inl (Exn ''SyntaxError''))"

definition host_no_files :: host where
  "host_no_files =
     \<lparr>cwd = ''/repo'', path_join = join ''/'',
      existsSync = (\<lambda>p. False),
      readFileSync = (\<lambda>p. Inl (Exn ''ENOENT'')),
      JSON_parse = parse_sample\<rparr>"

definition host_null_file :: host where
  "host_null_file =
     \<lparr>cwd = ''/repo'', path_join = join ''/'',
      existsSync = (\<lambda>p. p = ''/repo/src/data/default.json''),
      readFileSync = (\<lambda>p. if p = ''/repo/src/data/default.json'' then Inr ''null''
         else Inl (Exn ''ENOENT'')),
      JSON_parse = parse_sample\<rparr>"

definition host_empty_object_file :: host where
  "host_empty_object_file =
     \<lparr>cwd = ''/repo'', path_join = join ''/'',
      existsSync = (\<lambda>p. p = ''/repo/src/data/default.json''),
      readFileSync = (\<lambda>p. if p = ''/repo/src/data/default.json'' then Inr ''{}''
         else Inl (Exn ''ENOENT'')),
      JSON_parse = parse_sample\<rparr>"

section \<open>The API client: responses\<close>

text \<open>\<^verbatim>\<open>String.prototype.split\<close> with a one-character separator.\<close>

fun str_split :: "char \<Rightarrow> string \<Rightarrow> string list" where
  "str_split c [] = [[]]"
| "str_split c (x # xs) =
     (if x = c then [] # str_split c xs
      else (case str_split c xs of w # ws \<Rightarrow> (x # w) # ws | [] \<Rightarrow> [[x]]))"

text \<open>\<^verbatim>\<open>String.prototype.includes\<close>.\<close>

fun str_includes :: "string \<Rightarrow> string \<Rightarrow> bool" where
  "str_includes [] sub = (sub = [])"
| "str_includes (x # xs) sub = (prefix sub (x # xs) \<or> str_includes xs sub)"

text \<open>
  What \<^verbatim>\<open>processResponse\<close> reads of the host's response object: the three accessors,
  and the outcome of awaiting \<^verbatim>\<open>json()\<close> and \<^verbatim>\<open>text()\<close>, each a value or a thrown
  error.
\<close>

record APIResponse =
  status_of :: int
  statusText_of :: string
  headers_of :: "(string \<times> string) list"
  json_of :: "exn + jsval"
  text_of :: "exn + string"

record ApiResponse =
  r_status :: int
  r_statusText :: string
  r_headers :: "(string \<times> string) list"
  r_data :: jsval
  r_responseTime :: int

text \<open>The body of the \<^verbatim>\<open>try\<close> block of \<^verbatim>\<open>processResponse\<close>.\<close>

definition processResponse_try :: "APIResponse \<Rightarrow> exn + jsval" where
  "processResponse_try response =
     (let contentType = str_or (map_of (headers_of response) ''content-type'') []
      in if str_includes contentType ''application/json''
         then json_of response
         else (case text_of response of Inl e \<Rightarrow> Inl e | Inr t \<Rightarrow> Inr (JString t)))"

text \<open>
  \<^verbatim>\<open>processResponse\<close>; \<open>now\<close> is \<^verbatim>\<open>Date.now()\<close> at its first line and \<open>started\<close>
  its argument \<^verbatim>\<open>startTime\<close>.
\<close>

definition processResponse :: "int \<Rightarrow> APIResponse \<Rightarrow> int \<Rightarrow> ApiResponse" where
  "processResponse now response started =
     (let responseTime = now - started;
          data = (case processResponse_try response of Inl e \<Rightarrow> JNull | Inr v \<Rightarrow> v)
      in \<lparr>r_status = status_of response, r_statusText = statusText_of response,
          r_headers = headers_of response, r_data = data, r_responseTime = responseTime\<rparr>)"

text \<open>
  \<^verbatim>\<open>extractValue\<close>: the loop over the keys inside the \<^verbatim>\<open>try\<close> block, \<open>Inl\<close> an
  exception leaving it; then the function, whose \<^verbatim>\<open>catch\<close> block returns
  \<^verbatim>\<open>null\<close>.
\<close>

fun extractValue_loop :: "prototypes \<Rightarrow> jsval \<Rightarrow> string list \<Rightarrow> exn + jsval" where
  "extractValue_loop inh v [] = Inr v"
| "extractValue_loop inh v (key # keys) =
     (if truthy v \<and> typeof v = ''object'' \<and> js_in inh key v
      then (case js_get inh v key of
              Inl e \<Rightarrow> Inl e
            | Inr v' \<Rightarrow> extractValue_loop inh v' keys)
      else Inr JNull)"

definition extractValue :: "prototypes \<Rightarrow> ApiResponse \<Rightarrow> string \<Rightarrow> jsval" where
  "extractValue inh response path =
     (case extractValue_loop inh (r_data response) (str_split CHR ''.'' path) of
        Inl e \<Rightarrow> JNull
      | Inr v \<Rightarrow> v)"

text \<open>
  Following a path as the specification words it: through nested objects, by what the
  objects themselves hold. From a value that is an object (or array), a segment that is
  a property of that value leads to the value stored under it; the walk ends without a
  value when a segment is absent or the current value is not an object.
\<close>

fun is_object :: "jsval \<Rightarrow> bool" where
  "is_object (JObject kvs) = True"
| "is_object (JArray xs) = True"
| "is_object v = False"

fun follow :: "jsval \<Rightarrow> string list \<Rightarrow> jsval option" where
  "follow v [] = Some v"
| "follow v (key # keys) =
     (if is_object v
      then (case own_property v key of Some v' \<Rightarrow> follow v' keys | None \<Rightarrow> None)
      else None)"

text \<open>
  Following a path with the presence test of the language, \<^verbatim>\<open>key in value\<close>: a segment
  is present when it is a property of the value itself or is found on its prototype
  chain; a read that throws ends the walk.
\<close>

definition property_in :: "prototypes \<Rightarrow> jsval \<Rightarrow> string \<Rightarrow> jsval option" where
  "property_in inh v key =
     (case own_property v key of
        Some x \<Rightarrow> Some x
      | None \<Rightarrow> (case inh v key of Some (Inr x) \<Rightarrow> Some x | _ \<Rightarrow> None))"

fun follow_in :: "prototypes \<Rightarrow> jsval \<Rightarrow> string list \<Rightarrow> jsval option" where
  "follow_in inh v [] = Some v"
| "follow_in inh v (key # keys) =
     (if is_object v
      then (case property_in inh v key of Some v' \<Rightarrow> follow_in inh v' keys | None \<Rightarrow> None)
      else None)"

text \<open>A response body used in the examples.\<close>

definition sample_data :: jsval where
  "sample_data =
     JObject [(''user'', JObject [(''name'', JString ''Ann''),
                                  (''tags'', JArray [JString ''a'', JString ''b''])]),
              (''count'', JNumber 2)]"

definition sample_response :: ApiResponse where
  "sample_response =
     \<lparr>r_status = 200, r_statusText = ''OK'',
      r_headers = [(''content-type'', ''application/json; charset=utf-8'')],
      r_data = sample_data, r_responseTime = 12\<rparr>"

section \<open>Page interactions\<close>

text \<open>
  The interaction helpers of the page objects await calls of the browser library, each
  of which resolves or rejects. The environment gives, for the attempt with loop index
  \<open>i\<close>, the outcome of the awaited interaction (for \<^verbatim>\<open>clickElement\<close>:
  \<^verbatim>\<open>waitForElement\<close> then \<^verbatim>\<open>locator.click()\<close>; for \<^verbatim>\<open>fillInput\<close>: \<^verbatim>\<open>waitForElement\<close>,
  \<^verbatim>\<open>clear\<close>, \<^verbatim>\<open>fill\<close>) and the outcome of the \<^verbatim>\<open>waitForTimeout(1000)\<close> that follows
  a failed attempt; \<open>None\<close> is a call that resolves. A helper returns its outcome and
  the calls it made, in order.
\<close>

datatype action = Click | Fill | Press | ClickLink

datatype ui_event = Tried action nat | Warned action nat | Slept nat

record ui_env =
  attempt :: "nat \<Rightarrow> exn option"
  pause :: "nat \<Rightarrow> exn option"

text \<open>
  The loop of \<^verbatim>\<open>clickElement\<close> and of \<^verbatim>\<open>fillInput\<close> (the two are the same loop around
  different calls), from loop index \<open>i\<close>:
  \<^verbatim>\<open>for (let i = 0; i < retries; i++) { try { ...; return; } catch (error) {
  if (i === retries - 1) throw error; warn(attempt i + 1); await waitForTimeout(1000); } }\<close>
\<close>

function retry_loop :: "action \<Rightarrow> ui_env \<Rightarrow> int \<Rightarrow> nat \<Rightarrow> (exn + unit) \<times> ui_event list" where
  "retry_loop a env retries i =
     (if int i < retries
      then (case attempt env i of
              None \<Rightarrow> (Inr (), [Tried a i])
            | Some err \<Rightarrow>
                (if int i = retries - 1 then (Inl err, [Tried a i])
                 else (case pause env i of
                         Some e \<Rightarrow> (Inl e, [Tried a i, Warned a (i + 1), Slept 1000])
                       | None \<Rightarrow>
                           (case retry_loop a env retries (i + 1) of
                              (r, evs) \<Rightarrow>
                                (r, [Tried a i, Warned a (i + 1), Slept 1000] @ evs)))))
      else (Inr (), []))"
  by pat_completeness auto
termination
  by (relation "measure (\<lambda>(a, env, retries, i). nat (retries - int i))") auto

definition clickElement :: "ui_env \<Rightarrow> int \<Rightarrow> (exn + unit) \<times> ui_event list" where
  "clickElement env retries = retry_loop Click env retries 0"

definition fillInput :: "ui_env \<Rightarrow> int \<Rightarrow> (exn + unit) \<times> ui_event list" where
  "fillInput env retries = retry_loop Fill env retries 0"

text \<open>
  \<^verbatim>\<open>pressKey\<close> awaits \<^verbatim>\<open>page.keyboard.press(key)\<close> and the example page's
  \<^verbatim>\<open>clickMoreInfoLink\<close> awaits \<^verbatim>\<open>this.moreInfoLink.click()\<close>: one call, no loop.
\<close>

definition pressKey :: "ui_env \<Rightarrow> (exn + unit) \<times> ui_event list" where
  "pressKey env =
     (case attempt env 0 of None \<Rightarrow> (Inr (), [Tried Press 0])
      | Some err \<Rightarrow> (Inl err, [Tried Press 0]))"

definition clickMoreInfoLink :: "ui_env \<Rightarrow> (exn + unit) \<times> ui_event list" where
  "clickMoreInfoLink env =
     (case attempt env 0 of None \<Rightarrow> (Inr (), [Tried ClickLink 0])
      | Some err \<Rightarrow> (Inl err, [Tried ClickLink 0]))"

text \<open>
  The interaction helpers, called as the page objects call them: the two looping ones
  with the default \<^verbatim>\<open>retries = 3\<close>.
\<close>

datatype helper = ClickElement | FillInput | PressKey | ClickMoreInfoLink

fun perform :: "helper \<Rightarrow> ui_env \<Rightarrow> (exn + unit) \<times> ui_event list" where
  "perform ClickElement env = clickElement env 3"
| "perform FillInput env = fillInput env 3"
| "perform PressKey env = pressKey env"
| "perform ClickMoreInfoLink env = clickMoreInfoLink env"

fun is_tried :: "ui_event \<Rightarrow> bool" where
  "is_tried (Tried a i) = True"
| "is_tried e = False"

fun is_slept :: "ui_event \<Rightarrow> bool" where
  "is_slept (Slept ms) = True"
| "is_slept e = False"

definition attempts :: "ui_event list \<Rightarrow> nat" where
  "attempts evs = length (filter is_tried evs)"

definition sleeps :: "ui_event list \<Rightarrow> ui_event list" where
  "sleeps evs = filter is_slept evs"

text \<open>The rounds a loop goes through before its attempt with index \<open>n\<close>.\<close>

definition failed_rounds :: "action \<Rightarrow> nat \<Rightarrow> nat \<Rightarrow> ui_event list" where
  "failed_rounds a i n = concat (map (\<lambda>j. [Tried a j, Warned a (j + 1), Slept 1000]) [i..<n])"

text \<open>An element that never becomes clickable, on a page that stays open.\<close>

definition never_ready :: ui_env where
  "never_ready = \<lparr>attempt = (\<lambda>i. Some (Exn ''Timeout 30000ms exceeded'')), pause = (\<lambda>i. None)\<rparr>"

section \<open>The API client and the fixtures\<close>



record ApiClient =
  baseUrl :: string
  timeout :: int
  retries_field :: int
  headers :: "(string \<times> string) list"
  apiContext :: "nat option"









text \<open>
  The browser's contexts, likewise. The \<^verbatim>\<open>context\<close> fixture builds its options,
  creates a context, registers listeners that only log, hands the context to the test,
  and closes it. What the test (and the fixtures that depend on this one) does to the
  browser meanwhile is any function of the context and the browser.
\<close>

record browser_config =
  slowMo :: "int option"
  devtools :: "bool option"
  recordVideo :: "bool option"
  recordHar :: "bool option"















chapter \<open>Properties\<close>

section \<open>The custom reporter: counters\<close>

lemma onTestEnd_results: "results (onTestEnd t res r) = results r @ [entry_of t res]"
  by (simp add: onTestEnd_def Let_def)

lemma onTestEnd_totalTests: "totalTests (onTestEnd t res r) = totalTests r"
  by (simp add: onTestEnd_def Let_def)

lemma deliver_results:
  "results (deliver evs r) = results r @ map (\<lambda>(t, res). entry_of t res) evs"
  by (induction evs arbitrary: r) (auto simp: onTestEnd_results)

lemma deliver_totalTests: "totalTests (deliver evs r) = totalTests r"
  by (induction evs arbitrary: r) (auto simp: onTestEnd_totalTests)

lemma run_results: "results (run now n evs) = map (\<lambda>(t, res). entry_of t res) evs"
  by (simp add: run_def deliver_results onBegin_def new_CustomReporter_def)

lemma run_totalTests: "totalTests (run now n evs) = n"
  by (simp add: run_def deliver_totalTests onBegin_def)

lemma count_status_onTestEnd:
  "count_status s (onTestEnd t res r) = count_status s r + (if tr_status res = s then 1 else 0)"
  by (simp add: count_status_def onTestEnd_results entry_of_def)

lemma onTestEnd_passedTests:
  "passedTests (onTestEnd t res r) =
     passedTests r + (if tr_status res = ''passed'' then 1 else 0)"
  by (simp add: onTestEnd_def Let_def)

lemma onTestEnd_failedTests:
  "failedTests (onTestEnd t res r) =
     failedTests r + (if tr_status res = ''failed'' \<or> tr_status res = ''timedOut'' then 1 else 0)"
  by (simp add: onTestEnd_def Let_def)

lemma onTestEnd_skippedTests:
  "skippedTests (onTestEnd t res r) =
     skippedTests r + (if tr_status res = ''skipped'' then 1 else 0)"
  by (simp add: onTestEnd_def Let_def)

text \<open>The invariant of the three counters, kept by every \<^verbatim>\<open>onTestEnd\<close>.\<close>

lemma counters_step:
  assumes "passedTests r = count_status ''passed'' r"
    and "failedTests r = count_status ''failed'' r + count_status ''timedOut'' r"
    and "skippedTests r = count_status ''skipped'' r"
  shows "passedTests (onTestEnd t res r) = count_status ''passed'' (onTestEnd t res r) \<and>
         failedTests (onTestEnd t res r) =
           count_status ''failed'' (onTestEnd t res r) +
           count_status ''timedOut'' (onTestEnd t res r) \<and>
         skippedTests (onTestEnd t res r) = count_status ''skipped'' (onTestEnd t res r)"
  using assms
  by (simp add: count_status_onTestEnd onTestEnd_passedTests onTestEnd_failedTests
      onTestEnd_skippedTests)

lemma counters_deliver:
  assumes "passedTests r = count_status ''passed'' r"
    and "failedTests r = count_status ''failed'' r + count_status ''timedOut'' r"
    and "skippedTests r = count_status ''skipped'' r"
  shows "passedTests (deliver evs r) = count_status ''passed'' (deliver evs r) \<and>
         failedTests (deliver evs r) =
           count_status ''failed'' (deliver evs r) + count_status ''timedOut'' (deliver evs r) \<and>
         skippedTests (deliver evs r) = count_status ''skipped'' (deliver evs r)"
  using assms
proof (induction evs arbitrary: r)
  case Nil
  then show ?case by simp
next
  case (Cons ev evs)
  obtain t res where ev: "ev = (t, res)" by (cases ev)
  from counters_step [OF Cons.prems, of t res]
  show ?case unfolding ev deliver.simps by (intro Cons.IH) simp_all
qed

lemma counters_run:
  "passedTests (run now n evs) = count_status ''passed'' (run now n evs) \<and>
   failedTests (run now n evs) =
     count_status ''failed'' (run now n evs) + count_status ''timedOut'' (run now n evs) \<and>
   skippedTests (run now n evs) = count_status ''skipped'' (run now n evs)"
  unfolding run_def
  by (rule counters_deliver)
    (simp_all add: onBegin_def new_CustomReporter_def count_status_def)

text \<open>
  C1 (as amended). After \<^verbatim>\<open>onBegin\<close> and any sequence of delivered results, every
  result is recorded, in order; the passed counter is the number of recorded results with
  status \<^verbatim>\<open>passed\<close>, the skipped counter the number with status \<^verbatim>\<open>skipped\<close>, and the
  failed counter the number with status \<^verbatim>\<open>failed\<close> plus the number with status
  \<^verbatim>\<open>timedOut\<close>: a time-out has no counter of its own. The summary's passed, failed and
  skipped are these counters, and its total is the number of tests \<^verbatim>\<open>onBegin\<close> was
  given, whatever was delivered.
\<close>

theorem reporter_buckets:
  "results (run now n evs) = map (\<lambda>(t, res). entry_of t res) evs \<and>
   s_passed (generateJSONReport_summary (run now n evs)) =
     count_status ''passed'' (run now n evs) \<and>
   s_failed (generateJSONReport_summary (run now n evs)) =
     count_status ''failed'' (run now n evs) + count_status ''timedOut'' (run now n evs) \<and>
   s_skipped (generateJSONReport_summary (run now n evs)) =
     count_status ''skipped'' (run now n evs) \<and>
   s_total (generateJSONReport_summary (run now n evs)) = n"
  using counters_run [of now n evs]
  by (simp add: generateJSONReport_summary_def run_results run_totalTests)

lemma run_ev_timedOut:
  "run 0 1 [ev_timedOut] =
     \<lparr>startTime = 0, totalTests = 1, passedTests = 0, failedTests = 1, skippedTests = 0,
      results = [\<lparr>title = ''slow search'', status = ''timedOut'', duration = 30000,
        error = Some ''Test timeout of 30000ms exceeded.'', projectName = ''unknown''\<rparr>]\<rparr>"
  by (simp add: run_def ev_timedOut_def onBegin_def new_CustomReporter_def onTestEnd_def
      Let_def entry_of_def str_or_def)

theorem reporter_buckets_witness:
  "s_failed (generateJSONReport_summary (run 0 1 [ev_timedOut])) = 1 \<and>
   count_status ''timedOut'' (run 0 1 [ev_timedOut]) = 1 \<and>
   s_total (generateJSONReport_summary (run 0 1 [ev_timedOut])) = 1"
proof -
  note b = reporter_buckets [of 0 1 "[ev_timedOut]"]
  have c: "count_status ''timedOut'' (run 0 1 [ev_timedOut]) = 1"
    unfolding run_ev_timedOut count_status_def by simp
  have f: "count_status ''failed'' (run 0 1 [ev_timedOut]) = 0"
    unfolding run_ev_timedOut count_status_def by simp
  from b c f show ?thesis by simp
qed

text \<open>
  The claim as first stated fails: one delivered result with status \<^verbatim>\<open>timedOut\<close> raises
  the failed counter, which then differs from the number of results with status
  \<^verbatim>\<open>failed\<close>.
\<close>

theorem timedOut_counted_as_failed:
  "failedTests (run 0 1 [ev_timedOut]) \<noteq> count_status ''failed'' (run 0 1 [ev_timedOut])"
  unfolding run_ev_timedOut count_status_def by simp

section \<open>The custom reporter: success rate\<close>

subsection \<open>Rounding to a double\<close>

lemma pow2_powi: "pow2 d = 2 powi d"
  by (simp add: pow2_def power_int_def field_simps)

lemma pow2_pos: "0 < pow2 d"
  by (simp add: pow2_def)

lemma pow2_diff: "pow2 (a - b) = pow2 a / pow2 b"
  by (simp add: pow2_powi power_int_diff)

lemma round_half_even_close: "\<bar>of_int (round_half_even y) - y\<bar> \<le> 1 / 2"
proof -
  have "of_int \<lfloor>y\<rfloor> \<le> y" "y < of_int \<lfloor>y\<rfloor> + 1" by linarith+
  then show ?thesis
    by (auto simp: round_half_even_def Let_def abs_le_iff)
qed

lemma bitlen_rat:
  assumes "0 < a"
  shows "pow2 (bitlen a - 1) \<le> of_int a" "of_int a < pow2 (bitlen a)"
proof -
  from bitlen_bounds [OF assms]
  have l: "2 ^ nat (bitlen a - 1) \<le> a" and u: "a < 2 ^ nat (bitlen a)"
    by auto
  have b1: "1 \<le> bitlen a" using assms by (simp add: bitlen_alt_def)
  have "(of_int (2 ^ nat (bitlen a - 1)) :: rat) \<le> of_int a"
    using l by (simp only: of_int_le_iff)
  then show "pow2 (bitlen a - 1) \<le> of_int a" using b1 by (simp add: pow2_def)
  have "(of_int a :: rat) < of_int (2 ^ nat (bitlen a))"
    using u by (simp only: of_int_less_iff)
  then show "of_int a < pow2 (bitlen a)" using b1 by (simp add: pow2_def)
qed

text \<open>The exponent found is not above the number.\<close>

lemma ilog2_le:
  assumes "0 < x"
  shows "pow2 (ilog2 x) \<le> x"
proof -
  obtain a b where q: "quotient_of x = (a, b)" by (cases "quotient_of x")
  then have b: "0 < b" by (rule quotient_of_denom_pos)
  from q have x: "x = of_int a / of_int b" by (rule quotient_of_div)
  with assms b have a: "0 < a" by (simp add: zero_less_divide_iff)
  let ?d = "bitlen a - bitlen b"
  show ?thesis
  proof (cases "pow2 ?d \<le> x")
    case True
    then show ?thesis by (simp add: ilog2_def q Let_def)
  next
    case False
    have "pow2 (?d - 1) = pow2 (bitlen a - 1) / pow2 (bitlen b)"
      by (simp add: pow2_diff [symmetric] algebra_simps)
    also have "\<dots> \<le> of_int a / pow2 (bitlen b)"
      using bitlen_rat(1) [OF a] pow2_pos [of "bitlen b"] by (simp add: divide_right_mono)
    also have "\<dots> \<le> of_int a / of_int b"
      using bitlen_rat(2) [OF b] a b by (simp add: frac_le)
    finally have "pow2 (?d - 1) \<le> x" using x by simp
    with False show ?thesis by (simp add: ilog2_def q Let_def)
  qed
qed

text \<open>Rounding to a double moves a positive number by at most one part in \<open>2 ^ 53\<close>.\<close>

lemma fl_close_pos:
  assumes "0 < x"
  shows "\<bar>fl x - x\<bar> \<le> x / 2 ^ 53"
proof -
  define q where "q = pow2 (ilog2 x - 52)"
  have qpos: "0 < q" by (simp add: q_def pow2_pos)
  have f: "fl x = of_int (round_half_even (x / q)) * q"
    using assms by (simp add: fl_def Let_def q_def)
  have "\<bar>of_int (round_half_even (x / q)) - x / q\<bar> \<le> 1 / 2"
    by (rule round_half_even_close)
  then have "\<bar>of_int (round_half_even (x / q)) - x / q\<bar> * q \<le> (1 / 2) * q"
    using qpos by (simp add: mult_right_mono)
  moreover have "\<bar>of_int (round_half_even (x / q)) - x / q\<bar> * q = \<bar>fl x - x\<bar>"
  proof -
    have "(of_int (round_half_even (x / q)) - x / q) * q = fl x - x"
      using qpos by (simp add: f field_simps)
    then have "\<bar>fl x - x\<bar> = \<bar>of_int (round_half_even (x / q)) - x / q\<bar> * \<bar>q\<bar>"
      by (simp only: abs_mult [symmetric])
    with qpos show ?thesis by simp
  qed
  ultimately have 1: "\<bar>fl x - x\<bar> \<le> q / 2" by simp
  have "pow2 52 = 2 ^ 52" by (simp add: pow2_def)
  then have "q = pow2 (ilog2 x) / 2 ^ 52"
    by (simp only: q_def pow2_diff)
  also have "\<dots> \<le> x / 2 ^ 52" using ilog2_le [OF assms] by (simp add: divide_right_mono)
  finally have "q / 2 \<le> x / 2 ^ 53" by simp
  with 1 show ?thesis by linarith
qed

lemma fl_pos: "0 < x \<Longrightarrow> 0 < fl x"
proof -
  assume x: "0 < x"
  have "x / 2 ^ 53 < x" using x by (simp add: field_simps)
  with fl_close_pos [OF x] show ?thesis by linarith
qed

text \<open>The quotient times 100, computed in doubles, against the exact one.\<close>

lemma rate_close:
  assumes "0 \<le> e"
  shows "\<bar>fl (fl e * 100) - e * 100\<bar> \<le> e * 100 / 2 ^ 51"
proof (cases "e = 0")
  case True
  then show ?thesis by (simp add: fl_def)
next
  case False
  with assms have e: "0 < e" by simp
  have a: "\<bar>fl e - e\<bar> \<le> e / 2 ^ 53" by (rule fl_close_pos [OF e])
  have p: "0 < fl e * 100" using fl_pos [OF e] by simp
  have b: "\<bar>fl (fl e * 100) - fl e * 100\<bar> \<le> fl e * 100 / 2 ^ 53"
    by (rule fl_close_pos [OF p])
  have c: "fl e \<le> e + e / 2 ^ 53" using a by linarith
  have "fl e * 100 / 2 ^ 53 \<le> (e + e / 2 ^ 53) * 100 / 2 ^ 53"
    using c by (simp add: divide_right_mono)
  with a b
  have "\<bar>fl (fl e * 100) - e * 100\<bar> \<le> (e + e / 2 ^ 53) * 100 / 2 ^ 53 + 100 * (e / 2 ^ 53)"
    by linarith
  also have "\<dots> \<le> e * 100 / 2 ^ 51" using e by (simp add: field_simps)
  finally show ?thesis .
qed

subsection \<open>The rate in the four outputs\<close>

lemma successRate_value:
  "successRate r =
     Num (if totalTests r = 0 then 0
          else fl (fl (of_nat (passedTests r) / of_nat (totalTests r)) * 100))"
  by (simp add: successRate_def)

lemma metrics_of_rate:
  "successRate r = Num q \<Longrightarrow>
   s_successRate (generateMetricsReport_summary r) =
     Num (fl (of_int \<lfloor>fl (q * 100) + 1 / 2\<rfloor> / 100))"
  by (simp add: generateMetricsReport_summary_def successRate_def Let_def)

lemma console_of_rate:
  "successRate r = Num q \<Longrightarrow> p_successRate (onEnd_summary shw r) = toFixed shw 2 (Num q)"
  by (simp add: onEnd_summary_def successRate_def Let_def)

lemma html_of_rate:
  "successRate r = Num q \<Longrightarrow>
   p_successRate (generateHTMLReport_summary shw r) = toFixed shw 1 (Num q)"
  by (simp add: generateHTMLReport_summary_def successRate_def Let_def)

text \<open>
  C4 (as amended). In each of the four outputs the rate is computed by the same guarded
  expression: it is a finite number, 0 when the total is zero, and otherwise
  passed / total * 100 in the host's double arithmetic, which is within one part in
  \<open>2 ^ 51\<close> of the exact quotient; no division by a zero total is performed. The JSON
  report stores this rate. The console summary prints it rounded to two decimals
  (\<^verbatim>\<open>toFixed(2)\<close>) and the HTML report to one decimal (\<^verbatim>\<open>toFixed(1)\<close>); the HTML
  report also writes the rate itself as the width of its bar. The metrics report stores
  \<^verbatim>\<open>Math.round(rate * 100) / 100\<close>.
\<close>

theorem success_rate_guarded:
  "\<exists>q. successRate r = Num q \<and>
     q = (if totalTests r = 0 then 0
          else fl (fl (of_nat (passedTests r) / of_nat (totalTests r)) * 100)) \<and>
     (totalTests r \<noteq> 0 \<longrightarrow>
        \<bar>q - of_nat (passedTests r) / of_nat (totalTests r) * 100\<bar> \<le>
          of_nat (passedTests r) / of_nat (totalTests r) * 100 / 2 ^ 51) \<and>
     s_successRate (generateJSONReport_summary r) = Num q \<and>
     p_successRate (onEnd_summary shw r) = toFixed shw 2 (Num q) \<and>
     p_successRate (generateHTMLReport_summary shw r) = toFixed shw 1 (Num q) \<and>
     h_barWidth (generateHTMLReport_summary shw r) = shw q \<and>
     s_successRate (generateMetricsReport_summary r) =
       Num (fl (of_int \<lfloor>fl (q * 100) + 1 / 2\<rfloor> / 100))"
proof -
  define q where "q = (if totalTests r = 0 then 0
      else fl (fl (of_nat (passedTests r) / of_nat (totalTests r)) * 100))"
  have s: "successRate r = Num q"
    by (simp add: successRate_value q_def)
  have c: "totalTests r \<noteq> 0 \<longrightarrow>
        \<bar>q - of_nat (passedTests r) / of_nat (totalTests r) * 100\<bar> \<le>
          of_nat (passedTests r) / of_nat (totalTests r) * 100 / 2 ^ 51"
  proof
    assume t: "totalTests r \<noteq> 0"
    have "(0::rat) \<le> of_nat (passedTests r) / of_nat (totalTests r)" by simp
    from rate_close [OF this] t show
      "\<bar>q - of_nat (passedTests r) / of_nat (totalTests r) * 100\<bar> \<le>
          of_nat (passedTests r) / of_nat (totalTests r) * 100 / 2 ^ 51"
      by (simp add: q_def)
  qed
  have j: "s_successRate (generateJSONReport_summary r) = Num q"
    using s by (simp add: generateJSONReport_summary_def successRate_def)
  have o: "p_successRate (onEnd_summary shw r) = toFixed shw 2 (Num q)"
    by (rule console_of_rate [OF s])
  have h: "p_successRate (generateHTMLReport_summary shw r) = toFixed shw 1 (Num q)"
    by (rule html_of_rate [OF s])
  have w: "h_barWidth (generateHTMLReport_summary shw r) = shw q"
    using s by (simp add: generateHTMLReport_summary_def successRate_def Let_def
        number_text_def)
  have m: "s_successRate (generateMetricsReport_summary r) =
       Num (fl (of_int \<lfloor>fl (q * 100) + 1 / 2\<rfloor> / 100))"
    by (rule metrics_of_rate [OF s])
  show ?thesis
    by (intro exI [of _ q] conjI s q_def c j o h w m)
qed

lemma r_one_of_three_eq:
  "totalTests r_one_of_three = 3 \<and> passedTests r_one_of_three = 1"
  by (simp add: r_one_of_three_def run_def ev_passed_def onBegin_def new_CustomReporter_def
      onTestEnd_def Let_def)

lemma deliver_passed:
  "passedTests (deliver (replicate k ev_passed) r) = passedTests r + k"
  by (induction k arbitrary: r) (simp_all add: ev_passed_def onTestEnd_passedTests)

lemma r_23_of_160_eq: "totalTests r_23_of_160 = 160 \<and> passedTests r_23_of_160 = 23"
  by (simp add: r_23_of_160_def run_totalTests)
    (simp add: run_def deliver_passed onBegin_def new_CustomReporter_def)

text \<open>The doubles met in the two runs.\<close>

lemma rate_1_of_3: "fl (fl (1 / 3) * 100) = 2345624805922133 / 70368744177664"
  by code_simp

lemma rounded_1_of_3:
  "fl (of_int \<lfloor>fl (2345624805922133 / 70368744177664 * 100) + 1 / 2\<rfloor> / 100) =
     2345390243441541 / 70368744177664"
  by code_simp

lemma rate_23_of_160: "fl (fl (23 / 160) * 100) = 8092405580431359 / 562949953421312"
  by code_simp

lemma rounded_23_of_160:
  "fl (of_int \<lfloor>fl (8092405580431359 / 562949953421312 * 100) + 1 / 2\<rfloor> / 100) =
     8089590830664253 / 562949953421312"
  by code_simp

lemma figures_1_of_3:
  "toFixed no_shw 2 (Num (2345624805922133 / 70368744177664)) = ''33.33''"
  "toFixed no_shw 1 (Num (2345624805922133 / 70368744177664)) = ''33.3''"
  by code_simp+

lemma figure_23_of_160:
  "toFixed no_shw 2 (Num (8092405580431359 / 562949953421312)) = ''14.37''"
  by code_simp

lemma figure_zero: "toFixed no_shw 2 (Num 0) = ''0.00''"
  by code_simp

theorem success_rate_guarded_witness:
  "s_successRate (generateJSONReport_summary r_23_of_160) =
     Num (8092405580431359 / 562949953421312) \<and>
   p_successRate (onEnd_summary no_shw r_23_of_160) = ''14.37'' \<and>
   s_successRate (generateMetricsReport_summary r_23_of_160) =
     Num (8089590830664253 / 562949953421312) \<and>
   s_successRate (generateJSONReport_summary new_CustomReporter) = Num 0 \<and>
   p_successRate (onEnd_summary no_shw new_CustomReporter) = ''0.00''"
proof -
  from success_rate_guarded [of r_23_of_160 no_shw] obtain q where
    q: "q = (if totalTests r_23_of_160 = 0 then 0
          else fl (fl (of_nat (passedTests r_23_of_160) / of_nat (totalTests r_23_of_160)) * 100))"
    and j: "s_successRate (generateJSONReport_summary r_23_of_160) = Num q"
    and o: "p_successRate (onEnd_summary no_shw r_23_of_160) = toFixed no_shw 2 (Num q)"
    and m: "s_successRate (generateMetricsReport_summary r_23_of_160) =
       Num (fl (of_int \<lfloor>fl (q * 100) + 1 / 2\<rfloor> / 100))"
    by blast
  have qv: "q = 8092405580431359 / 562949953421312"
    unfolding q by (simp add: r_23_of_160_eq rate_23_of_160)
  have a: "s_successRate (generateJSONReport_summary r_23_of_160) =
       Num (8092405580431359 / 562949953421312) \<and>
     p_successRate (onEnd_summary no_shw r_23_of_160) = ''14.37'' \<and>
     s_successRate (generateMetricsReport_summary r_23_of_160) =
       Num (8089590830664253 / 562949953421312)"
    unfolding j o m qv rounded_23_of_160 figure_23_of_160 by simp
  have t: "totalTests new_CustomReporter = 0"
    by (simp add: new_CustomReporter_def)
  from success_rate_guarded [of new_CustomReporter no_shw] obtain q' where
    q': "q' = (if totalTests new_CustomReporter = 0 then 0
          else fl (fl (of_nat (passedTests new_CustomReporter) /
                       of_nat (totalTests new_CustomReporter)) * 100))"
    and j': "s_successRate (generateJSONReport_summary new_CustomReporter) = Num q'"
    and o': "p_successRate (onEnd_summary no_shw new_CustomReporter) =
       toFixed no_shw 2 (Num q')"
    by blast
  have qv': "q' = 0" unfolding q' by (simp add: t)
  have b: "s_successRate (generateJSONReport_summary new_CustomReporter) = Num 0 \<and>
     p_successRate (onEnd_summary no_shw new_CustomReporter) = ''0.00''"
    unfolding j' o' qv' figure_zero by simp
  from a b show ?thesis by simp
qed

text \<open>
  The claim as first stated fails: with one test passed out of three the rate is the
  double 33.33333333333333, while the metrics report stores the double 33.33, the console
  prints 33.33 and the HTML page 33.3.
\<close>

theorem rounded_rates:
  "successRate r_one_of_three = Num (2345624805922133 / 70368744177664) \<and>
   s_successRate (generateMetricsReport_summary r_one_of_three) =
     Num (2345390243441541 / 70368744177664) \<and>
   p_successRate (onEnd_summary no_shw r_one_of_three) = ''33.33'' \<and>
   p_successRate (generateHTMLReport_summary no_shw r_one_of_three) = ''33.3''"
proof -
  have s: "successRate r_one_of_three = Num (2345624805922133 / 70368744177664)"
    by (simp add: successRate_value r_one_of_three_eq rate_1_of_3)
  show ?thesis
    unfolding metrics_of_rate [OF s] console_of_rate [OF s] html_of_rate [OF s] s
      rounded_1_of_3 figures_1_of_3
    by simp
qed

section \<open>The custom reporter: the CSV artifact\<close>

lemma csv_row_spec: "csv_row shw (entry_of t res) = spec_csv_row shw (t, res)"
  by (simp add: csv_row_def spec_csv_row_def entry_of_def quoted_def str_or_def
      split: option.splits)

lemma run_rows: "map (csv_row shw) (results (run now n evs)) = map (spec_csv_row shw) evs"
  unfolding run_results by (induction evs) (auto simp: csv_row_spec)

text \<open>
  C5. After a run, \<^verbatim>\<open>onEnd\<close> writes \<^verbatim>\<open>test-results/custom-reports/report.csv\<close>,
  and its content is the header line, a newline, and the rows of the delivered results
  joined by newlines: one row per result, in the order of delivery, each of the five
  columns between double quotes, the Error column empty when the result has no error.
\<close>

theorem csv_report_content:
  "generateCSVReport shw (run now n evs) =
     (''test-results/custom-reports/report.csv'',
      ''Test Name,Status,Duration (ms),Project,Error'' @ newline @
        join newline (map (spec_csv_row shw) evs)) \<and>
   length (map (spec_csv_row shw) evs) = length evs \<and>
   map_of (onEnd_writes shw texts (run now n evs)) ''test-results/custom-reports/report.csv'' =
     Some (''Test Name,Status,Duration (ms),Project,Error'' @ newline @
        join newline (map (spec_csv_row shw) evs))"
proof -
  have g: "generateCSVReport shw (run now n evs) =
     (''test-results/custom-reports/report.csv'',
      ''Test Name,Status,Duration (ms),Project,Error'' @ newline @
        join newline (map (spec_csv_row shw) evs))"
    by (simp add: generateCSVReport_def Let_def run_rows csvHeaders_def)
  then show ?thesis
    by (simp add: onEnd_writes_def)
qed

theorem csv_report_content_witness:
  "snd (generateCSVReport (\<lambda>d. if d = 120 then ''120'' else ''30000'')
      (run 0 2 [ev_passed, ev_timedOut])) =
   ''Test Name,Status,Duration (ms),Project,Error'' @ newline @
   dquote @ ''loads the page'' @ dquote @ '','' @ dquote @ ''passed'' @ dquote @ '','' @
   dquote @ ''120'' @ dquote @ '','' @ dquote @ ''chromium'' @ dquote @ '','' @
   dquote @ dquote @ newline @
   dquote @ ''slow search'' @ dquote @ '','' @ dquote @ ''timedOut'' @ dquote @ '','' @
   dquote @ ''30000'' @ dquote @ '','' @ dquote @ ''unknown'' @ dquote @ '','' @
   dquote @ ''Test timeout of 30000ms exceeded.'' @ dquote"
  using csv_report_content [of "\<lambda>d. if d = 120 then ''120'' else ''30000''" 0 2
      "[ev_passed, ev_timedOut]"]
  by (simp add: spec_csv_row_def quoted_def ev_passed_def ev_timedOut_def str_or_def)

section \<open>The accessibility score\<close>






section \<open>Loading test data\<close>

lemma initialize_value: "initialize h m = Inr (m\<lparr>js_testData := spec_loaded_data h m\<rparr>)"
  by (auto simp: initialize_def loadTestData_def loadTestData_try_def spec_loaded_data_def
      data_of_file_def dataFile_def split: sum.splits)

lemma js_of_TestData_not_null: "js_of_TestData d \<noteq> JNull" "\<not> nullish (js_of_TestData d)"
  by (simp_all add: js_of_TestData_def nullish_def)

lemma spec_loaded_data_null:
  "spec_loaded_data h m = JNull \<longleftrightarrow>
     (\<exists>fileContent. existsSync h (dataFile h m) \<and>
        readFileSync h (dataFile h m) = Inr fileContent \<and> JSON_parse h fileContent = Inr JNull)"
  by (auto simp: spec_loaded_data_def data_of_file_def dataFile_def js_of_TestData_not_null
      split: sum.splits)

lemma no_inherited_member:
  "es_prototypes v ''users'' = None" "es_prototypes v ''searchQueries'' = None"
  "es_prototypes v ''urls'' = None" "es_prototypes v ''environments'' = None"
  "es_prototypes v ''name'' = None"
  by (cases v; simp add: es_prototypes_def inherited_from_def object_prototype_def
      array_prototype_def)+

lemma js_get_own:
  "inh v key = None \<Longrightarrow>
   js_get inh v key = Inr (case own_property v key of Some x \<Rightarrow> x | None \<Rightarrow> JUndefined)"
  by (simp add: js_get_def split: option.splits)

lemma nullish_no_property: "nullish v \<Longrightarrow> own_property v key = None"
  by (auto simp: nullish_def)

lemma list_getters:
  "getUsers m = Inr (member_or_empty (js_testData m) ''users'')"
  "getSearchQueries_js m = Inr (member_or_empty (js_testData m) ''searchQueries'')"
  "getUrls m = Inr (member_or_empty (js_testData m) ''urls'')"
  by (cases "nullish (js_testData m)";
      simp add: getUsers_def getSearchQueries_js_def getUrls_def member_or_empty_def
        js_get_own no_inherited_member nullish_no_property split: option.splits)+

lemma getEnvironment_null: "nullish (js_testData m) \<Longrightarrow> getEnvironment name m = Inr JUndefined"
  by (simp add: getEnvironment_def)

lemma find_by_name_objects:
  "list_all (\<lambda>env. \<not> nullish env) envs \<Longrightarrow>
   find_by_name name envs =
     Inr (case List.find (\<lambda>env. own_property env ''name'' = Some (JString name)) envs of
            None \<Rightarrow> JUndefined
          | Some env \<Rightarrow> env)"
  by (induction envs)
    (auto simp: js_get_own no_inherited_member split: option.splits)

lemma getEnvironment_array:
  assumes "own_property (js_testData m) ''environments'' = Some (JArray envs)"
    and "list_all (\<lambda>env. \<not> nullish env) envs"
  shows "getEnvironment name m =
     Inr (case List.find (\<lambda>env. own_property env ''name'' = Some (JString name)) envs of
            None \<Rightarrow> JUndefined
          | Some env \<Rightarrow> env)"
proof -
  have "\<not> nullish (js_testData m)"
    using assms(1) nullish_no_property [of "js_testData m" "''environments''"] by auto
  then show ?thesis
    using assms by (simp add: getEnvironment_def js_get_own no_inherited_member
        find_by_name_objects)
qed

lemma getEnvironment_no_array:
  assumes "\<not> nullish (js_testData m)"
    and "\<forall>envs. own_property (js_testData m) ''environments'' \<noteq> Some (JArray envs)"
  shows "getEnvironment name m = Inl (Exn ''TypeError'')"
  using assms
  by (auto simp: getEnvironment_def js_get_own no_inherited_member
      split: option.splits jsval.splits)

lemma members_of_TestData:
  "own_property (js_of_TestData d) ''users'' = Some (JArray (map js_of_User (users d)))"
  "own_property (js_of_TestData d) ''searchQueries'' =
     Some (JArray (map js_of_SearchQuery (searchQueries d)))"
  "own_property (js_of_TestData d) ''urls'' = Some (JArray (map js_of_UrlData (urls d)))"
  "own_property (js_of_TestData d) ''environments'' =
     Some (JArray (map js_of_Environment (environments d)))"
  by (simp_all add: js_of_TestData_def)

lemma name_of_Environment:
  "own_property (js_of_Environment e) ''name'' = Some (JString (e_name e))"
  "\<not> nullish (js_of_Environment e)"
  by (simp_all add: js_of_Environment_def nullish_def)

lemma find_Environments:
  "(case List.find (\<lambda>env. own_property env ''name'' = Some (JString name))
           (map js_of_Environment es) of
      None \<Rightarrow> JUndefined
    | Some env \<Rightarrow> env) =
   (case List.find (\<lambda>env. e_name env = name) es of
      None \<Rightarrow> JUndefined
    | Some env \<Rightarrow> js_of_Environment env)"
  by (induction es) (simp_all add: name_of_Environment)

lemma getters_TestData:
  assumes "js_testData m = js_of_TestData d"
  shows "getUsers m = Inr (JArray (map js_of_User (users d)))"
    "getSearchQueries_js m = Inr (JArray (map js_of_SearchQuery (searchQueries d)))"
    "getUrls m = Inr (JArray (map js_of_UrlData (urls d)))"
    "getEnvironment name m =
       Inr (case List.find (\<lambda>env. e_name env = name) (environments d) of
              None \<Rightarrow> JUndefined
            | Some env \<Rightarrow> js_of_Environment env)"
proof -
  show "getUsers m = Inr (JArray (map js_of_User (users d)))"
    "getSearchQueries_js m = Inr (JArray (map js_of_SearchQuery (searchQueries d)))"
    "getUrls m = Inr (JArray (map js_of_UrlData (urls d)))"
    by (simp_all add: list_getters member_or_empty_def assms members_of_TestData)
  have "list_all (\<lambda>env. \<not> nullish env) (map js_of_Environment (environments d))"
    by (simp add: list_all_iff name_of_Environment)
  with getEnvironment_array [of m "map js_of_Environment (environments d)" name]
  show "getEnvironment name m =
       Inr (case List.find (\<lambda>env. e_name env = name) (environments d) of
              None \<Rightarrow> JUndefined
            | Some env \<Rightarrow> js_of_Environment env)"
    by (simp add: assms members_of_TestData find_Environments)
qed

text \<open>The typed reading of \<^verbatim>\<open>getSearchQueries\<close> agrees with the getter on the host values.\<close>

lemma getSearchQueries_typed:
  "getSearchQueries_js (js_of_TestDataManager m) =
     Inr (JArray (map js_of_SearchQuery (getSearchQueries m)))"
  by (cases "testData m")
    (simp_all add: js_of_TestDataManager_def getSearchQueries_def list_getters
      member_or_empty_def members_of_TestData)

text \<open>
  C3 (as amended). \<^verbatim>\<open>initialize\<close> never throws. It keeps the environment name and stores:
  what the environment's file yields if that file exists; otherwise what the default
  file yields if that exists; otherwise the built-in data. A file that cannot be read or
  parsed yields the built-in data; a file that parses yields what it parsed to, whatever
  that is. The stored data is \<^verbatim>\<open>null\<close> exactly when the chosen file exists, is read, and
  parses to \<^verbatim>\<open>null\<close>. Afterwards \<^verbatim>\<open>getUsers\<close>, \<^verbatim>\<open>getSearchQueries\<close> and \<^verbatim>\<open>getUrls\<close> return
  the stored data's own member of their name, or an empty array when it has none (as
  when it is \<^verbatim>\<open>null\<close>) or a falsy one. \<^verbatim>\<open>getEnvironment\<close> returns \<^verbatim>\<open>undefined\<close> when the
  stored data is \<^verbatim>\<open>null\<close>; when the data's member \<^verbatim>\<open>environments\<close> is an array without
  \<^verbatim>\<open>null\<close> elements, it returns the first element whose member \<^verbatim>\<open>name\<close> is the given
  string, or \<^verbatim>\<open>undefined\<close> if there is none; when the data is not \<^verbatim>\<open>null\<close> and has no such
  array, it throws a \<^verbatim>\<open>TypeError\<close>. In particular, when the stored data has the declared
  shape of \<^verbatim>\<open>TestData\<close>, as the built-in data has, each getter returns the part of it it
  is named after.
\<close>

theorem initialize_never_throws:
  "\<exists>m'. initialize h m = Inr m' \<and>
     js_environment m' = js_environment m \<and>
     js_testData m' = spec_loaded_data h m \<and>
     (js_testData m' = JNull \<longleftrightarrow>
        (\<exists>fileContent. existsSync h (dataFile h m) \<and>
           readFileSync h (dataFile h m) = Inr fileContent \<and>
           JSON_parse h fileContent = Inr JNull)) \<and>
     getUsers m' = Inr (member_or_empty (js_testData m') ''users'') \<and>
     getSearchQueries_js m' = Inr (member_or_empty (js_testData m') ''searchQueries'') \<and>
     getUrls m' = Inr (member_or_empty (js_testData m') ''urls'') \<and>
     (\<forall>name. js_testData m' = JNull \<longrightarrow> getEnvironment name m' = Inr JUndefined) \<and>
     (\<forall>name envs.
        own_property (js_testData m') ''environments'' = Some (JArray envs) \<and>
        list_all (\<lambda>env. \<not> nullish env) envs \<longrightarrow>
        getEnvironment name m' =
          Inr (case List.find (\<lambda>env. own_property env ''name'' = Some (JString name)) envs of
                 None \<Rightarrow> JUndefined
               | Some env \<Rightarrow> env)) \<and>
     (\<forall>name.
        \<not> nullish (js_testData m') \<and>
        (\<forall>envs. own_property (js_testData m') ''environments'' \<noteq> Some (JArray envs)) \<longrightarrow>
        getEnvironment name m' = Inl (Exn ''TypeError'')) \<and>
     (\<forall>d. js_testData m' = js_of_TestData d \<longrightarrow>
        getUsers m' = Inr (JArray (map js_of_User (users d))) \<and>
        getSearchQueries_js m' = Inr (JArray (map js_of_SearchQuery (searchQueries d))) \<and>
        getUrls m' = Inr (JArray (map js_of_UrlData (urls d))) \<and>
        (\<forall>name. getEnvironment name m' =
           Inr (case List.find (\<lambda>env. e_name env = name) (environments d) of
                  None \<Rightarrow> JUndefined
                | Some env \<Rightarrow> js_of_Environment env)))"
proof -
  define m' where "m' = m\<lparr>js_testData := spec_loaded_data h m\<rparr>"
  have i: "initialize h m = Inr m'"
    unfolding m'_def by (rule initialize_value)
  have e: "js_environment m' = js_environment m"
    and t: "js_testData m' = spec_loaded_data h m"
    by (simp_all add: m'_def)
  note n = spec_loaded_data_null [of h m, folded t]
  have g0: "\<forall>name. js_testData m' = JNull \<longrightarrow> getEnvironment name m' = Inr JUndefined"
    by (simp add: getEnvironment_null nullish_def)
  have g1: "\<forall>name envs.
        own_property (js_testData m') ''environments'' = Some (JArray envs) \<and>
        list_all (\<lambda>env. \<not> nullish env) envs \<longrightarrow>
        getEnvironment name m' =
          Inr (case List.find (\<lambda>env. own_property env ''name'' = Some (JString name)) envs of
                 None \<Rightarrow> JUndefined
               | Some env \<Rightarrow> env)"
    using getEnvironment_array [of m'] by blast
  have g2: "\<forall>name.
        \<not> nullish (js_testData m') \<and>
        (\<forall>envs. own_property (js_testData m') ''environments'' \<noteq> Some (JArray envs)) \<longrightarrow>
        getEnvironment name m' = Inl (Exn ''TypeError'')"
    using getEnvironment_no_array [of m'] by blast
  have g3: "\<forall>d. js_testData m' = js_of_TestData d \<longrightarrow>
        getUsers m' = Inr (JArray (map js_of_User (users d))) \<and>
        getSearchQueries_js m' = Inr (JArray (map js_of_SearchQuery (searchQueries d))) \<and>
        getUrls m' = Inr (JArray (map js_of_UrlData (urls d))) \<and>
        (\<forall>name. getEnvironment name m' =
           Inr (case List.find (\<lambda>env. e_name env = name) (environments d) of
                  None \<Rightarrow> JUndefined
                | Some env \<Rightarrow> js_of_Environment env))"
    by (intro impI conjI allI getters_TestData)
  show ?thesis
    by (intro exI [of _ m'] conjI i e t n list_getters g0 g1 g2 g3)
qed

lemma default_environments:
  "own_property (js_of_TestData getDefaultTestData) ''environments'' =
     Some (JArray (map js_of_Environment (environments getDefaultTestData)))"
  "list_all (\<lambda>env. \<not> nullish env) (map js_of_Environment (environments getDefaultTestData))"
  by (simp_all add: members_of_TestData list_all_iff name_of_Environment)

lemma default_prod:
  "(case List.find (\<lambda>env. own_property env ''name'' = Some (JString ''prod''))
           (map js_of_Environment (environments getDefaultTestData)) of
      None \<Rightarrow> JUndefined
    | Some env \<Rightarrow> env) =
   js_of_Environment
     \<lparr>e_name = ''prod'', e_baseUrl = ''https://www.google.com'',
      e_apiUrl = ''https://jsonplaceholder.typicode.com'',
      e_features = [''search'', ''images'', ''maps'', ''news''],
      e_credentials = \<lparr>c_username = ''prod_user'', c_password = ''prod_pass''\<rparr>\<rparr>"
  by (simp add: find_Environments) (simp add: getDefaultTestData_def)

lemma no_files_data:
  "spec_loaded_data host_no_files (new_TestDataManager ''staging'') =
     js_of_TestData getDefaultTestData"
  by (simp add: spec_loaded_data_def host_no_files_def)

lemma null_file_data:
  "spec_loaded_data host_null_file (new_TestDataManager ''staging'') = JNull"
  by (simp add: spec_loaded_data_def data_of_file_def host_null_file_def envDataFile_def
      defaultDataFile_def dataDir_def new_TestDataManager_def parse_sample_def)

lemma empty_object_file_data:
  "spec_loaded_data host_empty_object_file (new_TestDataManager ''staging'') = JObject []"
  by (simp add: spec_loaded_data_def data_of_file_def host_empty_object_file_def
      envDataFile_def defaultDataFile_def dataDir_def new_TestDataManager_def parse_sample_def)

theorem initialize_never_throws_witness:
  "(\<exists>m'. initialize host_no_files (new_TestDataManager ''staging'') = Inr m' \<and>
      js_testData m' = js_of_TestData getDefaultTestData \<and>
      getUsers m' = Inr (JArray (map js_of_User (users getDefaultTestData))) \<and>
      getEnvironment ''prod'' m' =
        Inr (js_of_Environment
          \<lparr>e_name = ''prod'', e_baseUrl = ''https://www.google.com'',
           e_apiUrl = ''https://jsonplaceholder.typicode.com'',
           e_features = [''search'', ''images'', ''maps'', ''news''],
           e_credentials = \<lparr>c_username = ''prod_user'', c_password = ''prod_pass''\<rparr>\<rparr>)) \<and>
   (\<exists>m'. initialize host_null_file (new_TestDataManager ''staging'') = Inr m' \<and>
      js_testData m' = JNull \<and>
      getUrls m' = Inr (JArray []) \<and>
      getEnvironment ''prod'' m' = Inr JUndefined) \<and>
   (\<exists>m'. initialize host_empty_object_file (new_TestDataManager ''staging'') = Inr m' \<and>
      js_testData m' = JObject [] \<and>
      getSearchQueries_js m' = Inr (JArray []) \<and>
      getEnvironment ''prod'' m' = Inl (Exn ''TypeError''))"
proof -
  from initialize_never_throws [of host_no_files "new_TestDataManager ''staging''"]
  obtain m1 where i1: "initialize host_no_files (new_TestDataManager ''staging'') = Inr m1"
    and t1: "js_testData m1 = spec_loaded_data host_no_files (new_TestDataManager ''staging'')"
    and a1: "\<forall>name envs.
        own_property (js_testData m1) ''environments'' = Some (JArray envs) \<and>
        list_all (\<lambda>env. \<not> nullish env) envs \<longrightarrow>
        getEnvironment name m1 =
          Inr (case List.find (\<lambda>env. own_property env ''name'' = Some (JString name)) envs of
                 None \<Rightarrow> JUndefined
               | Some env \<Rightarrow> env)"
    and g1: "\<forall>d. js_testData m1 = js_of_TestData d \<longrightarrow>
        getUsers m1 = Inr (JArray (map js_of_User (users d))) \<and>
        getSearchQueries_js m1 = Inr (JArray (map js_of_SearchQuery (searchQueries d))) \<and>
        getUrls m1 = Inr (JArray (map js_of_UrlData (urls d))) \<and>
        (\<forall>name. getEnvironment name m1 =
           Inr (case List.find (\<lambda>env. e_name env = name) (environments d) of
                  None \<Rightarrow> JUndefined
                | Some env \<Rightarrow> js_of_Environment env))"
    by blast
  have d1: "js_testData m1 = js_of_TestData getDefaultTestData"
    by (simp only: t1 no_files_data)
  from g1 d1 have u1: "getUsers m1 = Inr (JArray (map js_of_User (users getDefaultTestData)))"
    by blast
  from a1 default_environments [folded d1]
  have "getEnvironment ''prod'' m1 =
     Inr (case List.find (\<lambda>env. own_property env ''name'' = Some (JString ''prod''))
                 (map js_of_Environment (environments getDefaultTestData)) of
            None \<Rightarrow> JUndefined
          | Some env \<Rightarrow> env)"
    by blast
  then have e1: "getEnvironment ''prod'' m1 =
     Inr (js_of_Environment
       \<lparr>e_name = ''prod'', e_baseUrl = ''https://www.google.com'',
        e_apiUrl = ''https://jsonplaceholder.typicode.com'',
        e_features = [''search'', ''images'', ''maps'', ''news''],
        e_credentials = \<lparr>c_username = ''prod_user'', c_password = ''prod_pass''\<rparr>\<rparr>)"
    by (simp only: default_prod)
  from initialize_never_throws [of host_null_file "new_TestDataManager ''staging''"]
  obtain m2 where i2: "initialize host_null_file (new_TestDataManager ''staging'') = Inr m2"
    and t2: "js_testData m2 = spec_loaded_data host_null_file (new_TestDataManager ''staging'')"
    and l2: "getUrls m2 = Inr (member_or_empty (js_testData m2) ''urls'')"
    and g2: "\<forall>name. js_testData m2 = JNull \<longrightarrow> getEnvironment name m2 = Inr JUndefined"
    by blast
  have d2: "js_testData m2 = JNull"
    by (simp only: t2 null_file_data)
  have u2: "getUrls m2 = Inr (JArray [])"
    by (simp add: l2 d2 member_or_empty_def)
  from g2 d2 have e2: "getEnvironment ''prod'' m2 = Inr JUndefined"
    by blast
  from initialize_never_throws [of host_empty_object_file "new_TestDataManager ''staging''"]
  obtain m3 where
    i3: "initialize host_empty_object_file (new_TestDataManager ''staging'') = Inr m3"
    and t3: "js_testData m3 =
      spec_loaded_data host_empty_object_file (new_TestDataManager ''staging'')"
    and l3: "getSearchQueries_js m3 = Inr (member_or_empty (js_testData m3) ''searchQueries'')"
    and g3: "\<forall>name.
        \<not> nullish (js_testData m3) \<and>
        (\<forall>envs. own_property (js_testData m3) ''environments'' \<noteq> Some (JArray envs)) \<longrightarrow>
        getEnvironment name m3 = Inl (Exn ''TypeError'')"
    by blast
  have d3: "js_testData m3 = JObject []"
    by (simp only: t3 empty_object_file_data)
  have u3: "getSearchQueries_js m3 = Inr (JArray [])"
    by (simp add: l3 d3 member_or_empty_def)
  from g3 have e3: "getEnvironment ''prod'' m3 = Inl (Exn ''TypeError'')"
    by (simp add: d3 nullish_def)
  have a: "\<exists>m'. initialize host_no_files (new_TestDataManager ''staging'') = Inr m' \<and>
      js_testData m' = js_of_TestData getDefaultTestData \<and>
      getUsers m' = Inr (JArray (map js_of_User (users getDefaultTestData))) \<and>
      getEnvironment ''prod'' m' =
        Inr (js_of_Environment
          \<lparr>e_name = ''prod'', e_baseUrl = ''https://www.google.com'',
           e_apiUrl = ''https://jsonplaceholder.typicode.com'',
           e_features = [''search'', ''images'', ''maps'', ''news''],
           e_credentials = \<lparr>c_username = ''prod_user'', c_password = ''prod_pass''\<rparr>\<rparr>)"
    using i1 d1 u1 e1 by blast
  have b: "\<exists>m'. initialize host_null_file (new_TestDataManager ''staging'') = Inr m' \<and>
      js_testData m' = JNull \<and>
      getUrls m' = Inr (JArray []) \<and>
      getEnvironment ''prod'' m' = Inr JUndefined"
    using i2 d2 u2 e2 by blast
  have c: "\<exists>m'. initialize host_empty_object_file (new_TestDataManager ''staging'') = Inr m' \<and>
      js_testData m' = JObject [] \<and>
      getSearchQueries_js m' = Inr (JArray []) \<and>
      getEnvironment ''prod'' m' = Inl (Exn ''TypeError'')"
    using i3 d3 u3 e3 by blast
  from a b c show ?thesis by (intro conjI)
qed

text \<open>
  The claim as first stated fails twice. When the default data file holds the JSON text
  \<^verbatim>\<open>null\<close>, the test data is \<^verbatim>\<open>null\<close> after \<^verbatim>\<open>initialize\<close>. When it holds the text
  \<^verbatim>\<open>{}\<close>, the test data is an empty object, and \<^verbatim>\<open>getEnvironment\<close> throws a
  \<^verbatim>\<open>TypeError\<close> instead of returning data.
\<close>

theorem loaded_data_null_or_shapeless:
  "initialize host_null_file (new_TestDataManager ''staging'') =
     Inr \<lparr>js_environment = ''staging'', js_testData = JNull\<rparr> \<and>
   initialize host_empty_object_file (new_TestDataManager ''staging'') =
     Inr \<lparr>js_environment = ''staging'', js_testData = JObject []\<rparr> \<and>
   getEnvironment ''staging'' \<lparr>js_environment = ''staging'', js_testData = JObject []\<rparr> =
     Inl (Exn ''TypeError'')"
proof -
  have a: "initialize host_null_file (new_TestDataManager ''staging'') =
     Inr \<lparr>js_environment = ''staging'', js_testData = JNull\<rparr>"
    by (simp add: initialize_def loadTestData_def loadTestData_try_def dataFile_def
      envDataFile_def defaultDataFile_def dataDir_def host_null_file_def
      new_TestDataManager_def parse_sample_def)
  have b: "initialize host_empty_object_file (new_TestDataManager ''staging'') =
     Inr \<lparr>js_environment = ''staging'', js_testData = JObject []\<rparr>"
    by (simp add: initialize_def loadTestData_def loadTestData_try_def dataFile_def
      envDataFile_def defaultDataFile_def dataDir_def host_empty_object_file_def
      new_TestDataManager_def parse_sample_def)
  have c: "getEnvironment ''staging'' \<lparr>js_environment = ''staging'', js_testData = JObject []\<rparr> =
     Inl (Exn ''TypeError'')"
    by (simp add: getEnvironment_def nullish_def js_get_def es_prototypes_def
      inherited_from_def object_prototype_def)
  from a b c show ?thesis by simp
qed

section \<open>Search queries by expected behaviour\<close>



section \<open>Processing a response\<close>

lemma str_includes_sublist: "str_includes s sub \<longleftrightarrow> sublist sub s"
  by (induction s) (auto simp: sublist_Cons_right)

text \<open>
  C8. \<^verbatim>\<open>processResponse\<close> always returns a record of status, status text, headers,
  data and response time. The data is the parsed JSON body when the \<^verbatim>\<open>content-type\<close>
  header contains \<^verbatim>\<open>application/json\<close> and the raw text otherwise; when obtaining
  the body throws, the data is \<^verbatim>\<open>null\<close> and nothing is thrown.
\<close>

theorem processResponse_total:
  "processResponse now response started =
     \<lparr>r_status = status_of response, r_statusText = statusText_of response,
      r_headers = headers_of response,
      r_data =
        (if sublist ''application/json''
              (str_or (map_of (headers_of response) ''content-type'') [])
         then (case json_of response of Inr v \<Rightarrow> v | Inl e \<Rightarrow> JNull)
         else (case text_of response of Inr t \<Rightarrow> JString t | Inl e \<Rightarrow> JNull)),
      r_responseTime = now - started\<rparr>"
  by (simp add: processResponse_def processResponse_try_def Let_def str_includes_sublist
      split: sum.splits)

theorem processResponse_total_witness:
  "r_data (processResponse 1012
      \<lparr>status_of = 200, statusText_of = ''OK'',
       headers_of = [(''content-type'', ''application/json'')],
       json_of = Inl (Exn ''Unexpected end of JSON input''), text_of = Inr ''{''\<rparr> 1000) = JNull \<and>
   r_data (processResponse 1012
      \<lparr>status_of = 200, statusText_of = ''OK'',
       headers_of = [(''content-type'', ''text/html'')],
       json_of = Inl (Exn ''Unexpected token''), text_of = Inr ''<p>hi</p>''\<rparr> 1000)
     = JString ''<p>hi</p>''"
proof -
  have "sublist ''application/json'' ''application/json''"
    by simp
  moreover have "\<not> sublist ''application/json'' ''text/html''"
    by (simp add: str_includes_sublist [symmetric])
  ultimately show ?thesis
    using processResponse_total [of 1012
        "\<lparr>status_of = 200, statusText_of = ''OK'',
          headers_of = [(''content-type'', ''application/json'')],
          json_of = Inl (Exn ''Unexpected end of JSON input''), text_of = Inr ''{''\<rparr>" 1000]
      processResponse_total [of 1012
        "\<lparr>status_of = 200, statusText_of = ''OK'',
          headers_of = [(''content-type'', ''text/html'')],
          json_of = Inl (Exn ''Unexpected token''), text_of = Inr ''<p>hi</p>''\<rparr>" 1000]
    by (simp add: str_or_def)
qed

section \<open>Extracting a value by path\<close>

lemma object_test: "(truthy v \<and> typeof v = ''object'') = is_object v"
  by (cases v) auto

lemma extractValue_loop_Cons:
  "extractValue_loop inh v (key # keys) =
     (if is_object v \<and> js_in inh key v
      then (case js_get inh v key of
              Inl e \<Rightarrow> Inl e
            | Inr v' \<Rightarrow> extractValue_loop inh v' keys)
      else Inr JNull)"
  using object_test [of v] by auto

lemma property_in_None:
  "property_in inh v key = None \<longleftrightarrow> \<not> js_in inh key v \<or> (\<exists>e. js_get inh v key = Inl e)"
  by (auto simp: property_in_def js_in_def js_get_def split: option.splits sum.splits)

lemma property_in_Some:
  "property_in inh v key = Some x \<Longrightarrow> js_in inh key v \<and> js_get inh v key = Inr x"
  by (auto simp: property_in_def js_in_def js_get_def split: option.splits sum.splits)

lemma loop_follow_in:
  "(case extractValue_loop inh v keys of Inl e \<Rightarrow> JNull | Inr x \<Rightarrow> x) =
   (case follow_in inh v keys of Some y \<Rightarrow> y | None \<Rightarrow> JNull)"
proof (induction keys arbitrary: v)
  case Nil
  then show ?case by simp
next
  case (Cons key keys)
  show ?case
  proof (cases "is_object v")
    case False
    then show ?thesis by (simp add: extractValue_loop_Cons del: extractValue_loop.simps)
  next
    case True
    show ?thesis
    proof (cases "property_in inh v key")
      case None
      then have "\<not> js_in inh key v \<or> (\<exists>e. js_get inh v key = Inl e)"
        by (simp add: property_in_None)
      then show ?thesis using True
        by (auto simp: extractValue_loop_Cons None simp del: extractValue_loop.simps)
    next
      case (Some x)
      from property_in_Some [OF Some] Cons.IH [of x] True Some
      show ?thesis by (simp add: extractValue_loop_Cons del: extractValue_loop.simps)
    qed
  qed
qed

text \<open>Where no segment names an inherited property, the two walks are one.\<close>

lemma follow_in_own:
  "\<forall>key \<in> set keys. \<forall>w. inh w key = None \<Longrightarrow> follow_in inh v keys = follow v keys"
proof (induction keys arbitrary: v)
  case Nil
  then show ?case by simp
next
  case (Cons key keys)
  then have "property_in inh v key = own_property v key"
    by (simp add: property_in_def split: option.splits)
  with Cons show ?case by (simp split: option.splits)
qed

lemma str_split_nonempty: "str_split c s \<noteq> []"
  by (induction s) (auto split: list.splits)

lemma join_str_split: "join [c] (str_split c s) = s"
proof (induction s)
  case Nil
  then show ?case by simp
next
  case (Cons x xs)
  obtain w ws where w: "str_split c xs = w # ws"
    using str_split_nonempty [of c xs] by (cases "str_split c xs") auto
  with Cons show ?case by (cases ws) auto
qed

lemma str_split_no_sep: "w \<in> set (str_split c s) \<Longrightarrow> c \<notin> set w"
  by (induction s arbitrary: w) (auto split: if_splits list.splits)

lemma es_prototypes_plain:
  "es_prototypes w ''user'' = None" "es_prototypes w ''tags'' = None"
  "es_prototypes w ''1'' = None" "es_prototypes w ''age'' = None"
  "es_prototypes w ''years'' = None"
  by (cases w; simp add: es_prototypes_def inherited_from_def object_prototype_def
      array_prototype_def)+

text \<open>
  C9 (as amended). \<^verbatim>\<open>extractValue\<close> returns a value in every case, also when a
  property read throws: the value reached by following the dot-separated segments of
  the path from \<^verbatim>\<open>response.data\<close>, a segment being present when \<^verbatim>\<open>key in value\<close>
  holds (a property of the object or array itself, or one inherited through its
  prototype chain), and \<^verbatim>\<open>null\<close> when a segment is not present or the current value is
  not an object. When no segment of the path names an inherited property, this is the
  walk through the nested objects' own properties. The segments are the parts of the
  path between its dots.
\<close>

theorem extractValue_follows_path:
  "extractValue inh response path =
     (case follow_in inh (r_data response) (str_split CHR ''.'' path) of
        Some v \<Rightarrow> v | None \<Rightarrow> JNull) \<and>
   ((\<forall>key \<in> set (str_split CHR ''.'' path). \<forall>w. inh w key = None) \<longrightarrow>
    extractValue inh response path =
      (case follow (r_data response) (str_split CHR ''.'' path) of
         Some v \<Rightarrow> v | None \<Rightarrow> JNull)) \<and>
   join ''.'' (str_split CHR ''.'' path) = path"
proof -
  have g: "extractValue inh response path =
     (case follow_in inh (r_data response) (str_split CHR ''.'' path) of
        Some v \<Rightarrow> v | None \<Rightarrow> JNull)"
    by (simp add: extractValue_def loop_follow_in)
  have o: "(\<forall>key \<in> set (str_split CHR ''.'' path). \<forall>w. inh w key = None) \<longrightarrow>
    extractValue inh response path =
      (case follow (r_data response) (str_split CHR ''.'' path) of
         Some v \<Rightarrow> v | None \<Rightarrow> JNull)"
    using g by (simp add: follow_in_own)
  from g o join_str_split [of "CHR ''.''" path] show ?thesis by simp
qed

theorem extractValue_follows_path_witness:
  "extractValue es_prototypes sample_response ''user.tags.1'' = JString ''b'' \<and>
   extractValue es_prototypes sample_response ''user.age.years'' = JNull"
proof -
  have s1: "str_split CHR ''.'' ''user.tags.1'' = [''user'', ''tags'', ''1'']"
    and s2: "str_split CHR ''.'' ''user.age.years'' = [''user'', ''age'', ''years'']"
    by simp_all
  have f1: "follow sample_data [''user'', ''tags'', ''1''] = Some (JString ''b'')"
    by (simp add: sample_data_def array_index_def is_digit_def digit_val_def)
  have f2: "follow sample_data [''user'', ''age'', ''years''] = None"
    by (simp add: sample_data_def)
  have d: "r_data sample_response = sample_data"
    by (simp add: sample_response_def)
  have e1: "extractValue es_prototypes sample_response ''user.tags.1'' = JString ''b''"
    using extractValue_follows_path [of es_prototypes sample_response "''user.tags.1''",
        THEN conjunct2, THEN conjunct1]
    unfolding s1 d f1 by (simp add: es_prototypes_plain)
  have e2: "extractValue es_prototypes sample_response ''user.age.years'' = JNull"
    using extractValue_follows_path [of es_prototypes sample_response "''user.age.years''",
        THEN conjunct2, THEN conjunct1]
    unfolding s2 d f2 by (simp add: es_prototypes_plain)
  from e1 e2 show ?thesis by simp
qed

text \<open>
  The claim as first stated fails: every object inherits \<^verbatim>\<open>toString\<close>, so for the
  path \<^verbatim>\<open>user.toString\<close> the function is returned, although the nested objects of the
  response hold no such segment.
\<close>

theorem inherited_segment_found:
  "extractValue es_prototypes sample_response ''user.toString'' = JFunction ''toString'' \<and>
   follow (r_data sample_response) (str_split CHR ''.'' ''user.toString'') = None"
  by (simp add: extractValue_def sample_response_def sample_data_def js_in_def js_get_def
      es_prototypes_def inherited_from_def object_prototype_def)

section \<open>Retrying page interactions\<close>

lemma failed_rounds_step:
  "i < n \<Longrightarrow>
   failed_rounds a i n = [Tried a i, Warned a (i + 1), Slept 1000] @ failed_rounds a (i + 1) n"
  by (simp add: failed_rounds_def upt_conv_Cons)

lemma failed_rounds_empty: "failed_rounds a n n = []"
  by (simp add: failed_rounds_def)

text \<open>When every attempt fails, the loop surfaces the error of the last one.\<close>

lemma retry_loop_all_fail:
  assumes "\<forall>j. i \<le> j \<and> int j < n \<longrightarrow> attempt env j \<noteq> None \<and> pause env j = None"
    and "int i < n" and "attempt env (nat n - 1) = Some e"
  shows "retry_loop a env n i = (Inl e, failed_rounds a i (nat n - 1) @ [Tried a (nat n - 1)])"
  using assms
proof (induction a env n i rule: retry_loop.induct)
  case (1 a env retries i)
  from "1.prems" obtain err where err: "attempt env i = Some err" and p: "pause env i = None"
    by (metis not_None_eq order_refl)
  show ?case
  proof (cases "int i = retries - 1")
    case True
    then have i: "i = nat retries - 1" by simp
    with err "1.prems"(3) have "err = e" by simp
    with True err "1.prems"(2) i show ?thesis
      by (subst retry_loop.simps) (simp add: failed_rounds_empty)
  next
    case False
    with "1.prems"(2) have lt: "int (i + 1) < retries" by simp
    then have lt': "i < nat retries - 1" by linarith
    have "retry_loop a env retries (i + 1) =
        (Inl e, failed_rounds a (i + 1) (nat retries - 1) @ [Tried a (nat retries - 1)])"
      using "1.IH" [OF "1.prems"(2) err False p] "1.prems"(1,3) lt by simp
    with False err p "1.prems"(2) failed_rounds_step [OF lt', of a] show ?thesis
      by (subst retry_loop.simps) simp
  qed
qed

text \<open>The first attempt that succeeds ends the loop.\<close>

lemma retry_loop_succeeds:
  assumes "\<forall>j. i \<le> j \<and> j < k \<longrightarrow> attempt env j \<noteq> None \<and> pause env j = None"
    and "attempt env k = None" and "i \<le> k" and "int k < n"
  shows "retry_loop a env n i = (Inr (), failed_rounds a i k @ [Tried a k])"
  using assms
proof (induction a env n i rule: retry_loop.induct)
  case (1 a env retries i)
  show ?case
  proof (cases "i = k")
    case True
    with "1.prems" show ?thesis
      by (subst retry_loop.simps) (simp add: failed_rounds_empty)
  next
    case False
    with "1.prems"(3) have lt: "i < k" by simp
    with "1.prems"(1) obtain err where err: "attempt env i = Some err"
      and p: "pause env i = None"
      by (metis not_None_eq order_refl)
    from lt "1.prems"(4) have ne: "int i \<noteq> retries - 1" and il: "int i < retries"
      by linarith+
    have "retry_loop a env retries (i + 1) = (Inr (), failed_rounds a (i + 1) k @ [Tried a k])"
      using "1.IH" [OF il err ne p] "1.prems" lt by simp
    with err p ne il failed_rounds_step [OF lt, of a] show ?thesis
      by (subst retry_loop.simps) simp
  qed
qed

text \<open>With no attempt allowed, the loop body never runs and the helper resolves.\<close>

lemma retry_loop_no_attempt: "retries \<le> 0 \<Longrightarrow> retry_loop a env retries 0 = (Inr (), [])"
  by (subst retry_loop.simps) simp

lemma attempts_failed_rounds: "attempts (failed_rounds a i n @ [Tried a n]) = n - i + 1"
  by (induction "n - i" arbitrary: i) (simp_all add: attempts_def failed_rounds_def upt_conv_Cons)

lemma sleeps_failed_rounds:
  "sleeps (failed_rounds a i n @ [Tried a n]) = replicate (n - i) (Slept 1000)"
proof (induction "n - i" arbitrary: i)
  case 0
  then show ?case by (simp add: sleeps_def failed_rounds_def)
next
  case (Suc d)
  then have lt: "i < n" and d: "d = n - (i + 1)" by linarith+
  from Suc(1) [OF d] Suc(2) failed_rounds_step [OF lt, of a] show ?case
    by (simp add: sleeps_def flip: replicate_Suc)
qed

text \<open>
  C2 (as amended). \<^verbatim>\<open>clickElement\<close> and \<^verbatim>\<open>fillInput\<close>, given \<open>n \<ge> 1\<close> for
  \<^verbatim>\<open>retries\<close> (3 by default), on an interaction that fails at every attempt while the
  waits between attempts resolve: they make \<open>n\<close> attempts, wait 1000 ms after each
  failed attempt but the last (\<open>n - 1\<close> waits), and surface the error of the last
  attempt. \<^verbatim>\<open>pressKey\<close> and \<^verbatim>\<open>clickMoreInfoLink\<close> make one attempt and surface its
  error, with no retry and no wait.
\<close>

theorem retry_policy:
  assumes "1 \<le> n"
    and "\<forall>j. int j < n \<longrightarrow> attempt env j \<noteq> None \<and> pause env j = None"
  shows "\<exists>e e0. attempt env (nat n - 1) = Some e \<and> attempt env 0 = Some e0 \<and>
     clickElement env n = (Inl e, failed_rounds Click 0 (nat n - 1) @ [Tried Click (nat n - 1)]) \<and>
     fillInput env n = (Inl e, failed_rounds Fill 0 (nat n - 1) @ [Tried Fill (nat n - 1)]) \<and>
     attempts (snd (clickElement env n)) = nat n \<and>
     attempts (snd (fillInput env n)) = nat n \<and>
     sleeps (snd (clickElement env n)) = replicate (nat n - 1) (Slept 1000) \<and>
     sleeps (snd (fillInput env n)) = replicate (nat n - 1) (Slept 1000) \<and>
     pressKey env = (Inl e0, [Tried Press 0]) \<and>
     clickMoreInfoLink env = (Inl e0, [Tried ClickLink 0])"
proof -
  from assms have "int (nat n - 1) < n" by linarith
  with assms(2) obtain e where e: "attempt env (nat n - 1) = Some e" by blast
  from assms have "int 0 < n" by simp
  with assms(2) obtain e0 where e0: "attempt env 0 = Some e0" by blast
  have all: "\<forall>j. 0 \<le> j \<and> int j < n \<longrightarrow> attempt env j \<noteq> None \<and> pause env j = None"
    using assms(2) by simp
  have z: "int 0 < n" using assms(1) by simp
  have c: "clickElement env n =
      (Inl e, failed_rounds Click 0 (nat n - 1) @ [Tried Click (nat n - 1)])"
    unfolding clickElement_def by (rule retry_loop_all_fail [OF all z e])
  have f: "fillInput env n =
      (Inl e, failed_rounds Fill 0 (nat n - 1) @ [Tried Fill (nat n - 1)])"
    unfolding fillInput_def by (rule retry_loop_all_fail [OF all z e])
  have n1: "nat n - 1 - 0 + 1 = nat n" using assms(1) by linarith
  have ac: "attempts (snd (clickElement env n)) = nat n"
    unfolding c snd_conv attempts_failed_rounds n1 ..
  have af: "attempts (snd (fillInput env n)) = nat n"
    unfolding f snd_conv attempts_failed_rounds n1 ..
  have sc: "sleeps (snd (clickElement env n)) = replicate (nat n - 1) (Slept 1000)"
    unfolding c snd_conv sleeps_failed_rounds by simp
  have sf: "sleeps (snd (fillInput env n)) = replicate (nat n - 1) (Slept 1000)"
    unfolding f snd_conv sleeps_failed_rounds by simp
  have pk: "pressKey env = (Inl e0, [Tried Press 0])"
    by (simp add: pressKey_def e0)
  have cl: "clickMoreInfoLink env = (Inl e0, [Tried ClickLink 0])"
    by (simp add: clickMoreInfoLink_def e0)
  show ?thesis
    by (intro exI [of _ e] exI [of _ e0] conjI e e0 c f ac af sc sf pk cl)
qed

theorem retry_policy_witness:
  "perform ClickElement never_ready =
     (Inl (Exn ''Timeout 30000ms exceeded''),
      [Tried Click 0, Warned Click 1, Slept 1000, Tried Click 1, Warned Click 2, Slept 1000,
       Tried Click 2]) \<and>
   attempts (snd (perform FillInput never_ready)) = 3"
proof -
  have h: "\<forall>j. int j < 3 \<longrightarrow> attempt never_ready j \<noteq> None \<and> pause never_ready j = None"
    by (simp add: never_ready_def)
  have a: "attempt never_ready k = Some (Exn ''Timeout 30000ms exceeded'')" for k
    by (simp add: never_ready_def)
  have r: "failed_rounds Click 0 2 =
      [Tried Click 0, Warned Click 1, Slept 1000, Tried Click 1, Warned Click 2, Slept 1000]"
    by (simp add: failed_rounds_def upt_conv_Cons numeral_2_eq_2)
  from retry_policy [of 3 never_ready, OF _ h] show ?thesis
    by (auto simp: a r)
qed

text \<open>
  The claim as first stated fails: on an element that never becomes ready,
  \<^verbatim>\<open>pressKey\<close> and \<^verbatim>\<open>clickMoreInfoLink\<close> surface the failure after a single attempt,
  with no wait.
\<close>

theorem single_attempt_helpers:
  "perform PressKey never_ready =
     (Inl (Exn ''Timeout 30000ms exceeded''), [Tried Press 0]) \<and>
   perform ClickMoreInfoLink never_ready =
     (Inl (Exn ''Timeout 30000ms exceeded''), [Tried ClickLink 0])"
  by (simp add: pressKey_def clickMoreInfoLink_def never_ready_def)

section \<open>Fixtures release what they allocate\<close>














end
